theory Spec2Isabelle
  imports Complex_Main
begin

section \<open>JavaScript numbers\<close>

text \<open>
  The calculator computes with JavaScript numbers. The control flow of
  \<^verbatim>\<open>handleCalculation\<close> depends on three things a plain real number does not have:
  \<^verbatim>\<open>NaN\<close> (what \<^verbatim>\<open>parseFloat\<close> returns for a field that is not a number, tested with
  \<^verbatim>\<open>isNaN\<close>, and for which every comparison is false), and the two infinities (what a
  division by zero such as \<^verbatim>\<open>1.0 / density\<close> gives). They are constructors of \<open>num\<close>.
  Finite values are real numbers and the operators compute exactly on them: rounding to
  53 bits, overflow of finite values and the sign of zero are not part of this model.
\<close>

datatype num = NaN | NInf | Fin real | PInf

fun isNaN :: "num \<Rightarrow> bool" where
  "isNaN NaN = True"
| "isNaN _ = False"

text \<open>Unary minus, \<^verbatim>\<open>+\<close>, \<^verbatim>\<open>-\<close>, \<^verbatim>\<open>*\<close> and \<^verbatim>\<open>/\<close> on numbers.\<close>

fun js_neg :: "num \<Rightarrow> num" where
  "js_neg NaN = NaN"
| "js_neg NInf = PInf"
| "js_neg PInf = NInf"
| "js_neg (Fin a) = Fin (- a)"

fun js_add :: "num \<Rightarrow> num \<Rightarrow> num" where
  "js_add (Fin a) (Fin b) = Fin (a + b)"
| "js_add NaN _ = NaN"
| "js_add _ NaN = NaN"
| "js_add PInf NInf = NaN"
| "js_add NInf PInf = NaN"
| "js_add PInf _ = PInf"
| "js_add _ PInf = PInf"
| "js_add NInf _ = NInf"
| "js_add _ NInf = NInf"

definition js_sub :: "num \<Rightarrow> num \<Rightarrow> num" where
  "js_sub a b = js_add a (js_neg b)"

fun js_mul :: "num \<Rightarrow> num \<Rightarrow> num" where
  "js_mul (Fin a) (Fin b) = Fin (a * b)"
| "js_mul NaN _ = NaN"
| "js_mul _ NaN = NaN"
| "js_mul (Fin a) PInf = (if a = 0 then NaN else if 0 < a then PInf else NInf)"
| "js_mul (Fin a) NInf = (if a = 0 then NaN else if 0 < a then NInf else PInf)"
| "js_mul PInf (Fin b) = (if b = 0 then NaN else if 0 < b then PInf else NInf)"
| "js_mul NInf (Fin b) = (if b = 0 then NaN else if 0 < b then NInf else PInf)"
| "js_mul PInf PInf = PInf"
| "js_mul NInf NInf = PInf"
| "js_mul PInf NInf = NInf"
| "js_mul NInf PInf = NInf"

text \<open>Division: a zero divisor is taken as \<^verbatim>\<open>+0\<close>.\<close>

fun js_div :: "num \<Rightarrow> num \<Rightarrow> num" where
  "js_div (Fin a) (Fin b) =
     (if b = 0 then (if a = 0 then NaN else if 0 < a then PInf else NInf)
      else Fin (a / b))"
| "js_div NaN _ = NaN"
| "js_div _ NaN = NaN"
| "js_div (Fin a) PInf = Fin 0"
| "js_div (Fin a) NInf = Fin 0"
| "js_div PInf (Fin b) = (if 0 \<le> b then PInf else NInf)"
| "js_div NInf (Fin b) = (if 0 \<le> b then NInf else PInf)"
| "js_div PInf PInf = NaN"
| "js_div PInf NInf = NaN"
| "js_div NInf PInf = NaN"
| "js_div NInf NInf = NaN"

text \<open>The comparisons \<^verbatim>\<open><\<close>, \<^verbatim>\<open><=\<close>, \<^verbatim>\<open>>\<close>, \<^verbatim>\<open>>=\<close>: false as soon as one side is \<^verbatim>\<open>NaN\<close>.\<close>

fun js_lt :: "num \<Rightarrow> num \<Rightarrow> bool" where
  "js_lt (Fin a) (Fin b) = (a < b)"
| "js_lt NaN _ = False"
| "js_lt _ NaN = False"
| "js_lt _ NInf = False"
| "js_lt PInf _ = False"
| "js_lt NInf _ = True"
| "js_lt _ PInf = True"

fun js_le :: "num \<Rightarrow> num \<Rightarrow> bool" where
  "js_le (Fin a) (Fin b) = (a \<le> b)"
| "js_le NaN _ = False"
| "js_le _ NaN = False"
| "js_le NInf _ = True"
| "js_le _ PInf = True"
| "js_le PInf _ = False"
| "js_le _ NInf = False"

definition js_gt :: "num \<Rightarrow> num \<Rightarrow> bool" where
  "js_gt a b = js_lt b a"

definition js_ge :: "num \<Rightarrow> num \<Rightarrow> bool" where
  "js_ge a b = js_le b a"

section \<open>The property library\<close>

text \<open>
  \<^verbatim>\<open>CP.PropsSI(out, name1, value1, name2, value2, fluid)\<close> is the one entry point of the
  external CoolProp module that the calculation uses. The module is not part of the
  repository: it is a parameter of the model, a function from the six arguments of a call
  to either the message of the error it throws (\<open>Inl\<close>) or the number it returns.
  The module variable \<^verbatim>\<open>CP\<close> is unset until \<^verbatim>\<open>initAppLogic\<close> has loaded the module:
  \<open>None\<close> here.
\<close>

type_synonym query = "string \<times> string \<times> num \<times> string \<times> num \<times> string"

type_synonym coolprop = "query \<Rightarrow> string + num"

section \<open>Form, page and errors\<close>

text \<open>The keys of \<^verbatim>\<open>fluidMaps\<close>, the values \<^verbatim>\<open>currentTab\<close> takes.\<close>

datatype tab = Orc | Steam | Gas

text \<open>
  \<^verbatim>\<open>Object.values(fluidMaps[currentTab])\<close>: the CoolProp names of the fluids of a tab, in
  the order of the object literal (the keys are the labels shown in the select box).
\<close>

fun fluidMaps_values :: "tab \<Rightarrow> string list" where
  "fluidMaps_values Orc = [''R245fa'', ''R134a'', ''Isobutane'', ''R1233ZDE'', ''R123'']"
| "fluidMaps_values Steam = [''Water'']"
| "fluidMaps_values Gas = [''Air'', ''CarbonDioxide'', ''Methane'', ''Nitrogen'']"

text \<open>
  The values of the three radio groups \<^verbatim>\<open>inlet-mode\<close>, \<^verbatim>\<open>outlet-mode\<close> and
  \<^verbatim>\<open>flow-mode\<close>, as the change handlers of the page list them.
\<close>

datatype inlet_mode = PT | Tsup
datatype outlet_mode = Pressure | Tcond
datatype flow_mode = Mass | Displacement | Volume

text \<open>
  What \<^verbatim>\<open>handleCalculation\<close> reads from the page: the selected fluid, the checked radio
  buttons, and for each input field the result of \<^verbatim>\<open>parseFloat\<close> on its text
  (\<open>NaN\<close> when the text does not start with a number). A field is named after the id of
  its element.
\<close>

record form =
  fluidName :: string
  inletMode :: inlet_mode
  inlet_pressure :: num
  inlet_temperature :: num
  evap_temp :: num
  superheat :: num
  outletMode :: outlet_mode
  outlet_pressure :: num
  condensing_temperature :: num
  isentropic_efficiency :: num
  flowMode :: flow_mode
  mass_flow :: num
  displacement :: num
  rpm :: num
  volumetric_efficiency :: num
  volume_flow_rate :: num

text \<open>
  What a result cell shows: the text \<^verbatim>\<open>x.toFixed(n)\<close> of a number, kept as the pair of
  the number and its count of decimals, or one of the fixed labels of \<^verbatim>\<open>formatPhase\<close>
  (in source order: subcooled, superheated, saturated liquid, saturated vapour,
  supercritical, supercritical gas, supercritical liquid, \<^verbatim>\<open>--\<close> and \<^verbatim>\<open>N/A\<close>).
\<close>

datatype label =
  Subcooled | Superheated | SaturatedLiquid | SaturatedVapour
  | Supercritical | SupercriticalGas | SupercriticalLiquid | Dashes | NotApplicable

datatype shown = ToFixed num nat | Label label

text \<open>
  The errors thrown inside the \<^verbatim>\<open>try\<close> block, one constructor for each \<^verbatim>\<open>throw\<close> of the
  source, in source order, and one for an error thrown by \<^verbatim>\<open>CP.PropsSI\<close>. The messages are
  Chinese text; each constructor stands for its message:
  \<^item> \<open>FluidMismatch\<close>: internal state error, the fluid does not belong to the tab (both
    are part of the message);
  \<^item> \<open>InvalidPressureTemperature\<close>: pressure/temperature input invalid;
  \<^item> \<open>InvalidSaturationSuperheat\<close>: saturation temperature/superheat input invalid;
  \<^item> \<open>InvalidOutletPressure\<close>: outlet pressure input invalid;
  \<^item> \<open>InvalidCondensingTemperature\<close>: condensing temperature input invalid;
  \<^item> \<open>EfficiencyOutOfRange\<close>: the isentropic efficiency must lie in (0, 100];
  \<^item> \<open>OutletNotBelowInlet out inl\<close>: the computed outlet pressure (\<open>out\<close> bar) must be
    lower than the inlet pressure (\<open>inl\<close> bar), both printed with \<^verbatim>\<open>toFixed(2)\<close>;
  \<^item> \<open>MassFlowNotPositive\<close>: the mass flow must be a positive number;
  \<^item> \<open>DisplacementInputInvalid\<close>: displacement parameters input invalid;
  \<^item> \<open>DisplacementNotPositive\<close>: displacement, speed and volumetric efficiency must be
    positive numbers;
  \<^item> \<open>VolumeFlowNotPositive\<close>: the volume flow must be a positive number;
  \<^item> \<open>OracleFailure msg\<close>: the error thrown by the property library.
\<close>

datatype error =
  FluidMismatch string tab
  | InvalidPressureTemperature
  | InvalidSaturationSuperheat
  | InvalidOutletPressure
  | InvalidCondensingTemperature
  | EfficiencyOutOfRange
  | OutletNotBelowInlet shown shown
  | MassFlowNotPositive
  | DisplacementInputInvalid
  | DisplacementNotPositive
  | VolumeFlowNotPositive
  | OracleFailure string

text \<open>
  The text of the status bar: the not-loaded message of the guard, the message of the
  \<^verbatim>\<open>catch\<close> block (a fixed prefix and \<^verbatim>\<open>err.message\<close>), the message of a finished
  calculation, or any other text (what was there before).
\<close>

datatype status = NotLoaded | CalculationError error | Completed | OtherText string

text \<open>
  The part of the page that \<^verbatim>\<open>handleCalculation\<close> writes: the status bar (text and the
  two colours), and the contents of the elements written by id, the \<^verbatim>\<open>value\<close> of the
  three summary inputs and the \<^verbatim>\<open>textContent\<close> of the table cells. Every element the
  function looks up by id exists on the page.
\<close>

record page =
  statusBar_textContent :: status
  statusBar_backgroundColor :: string
  statusBar_color :: string
  content :: "string \<rightharpoonup> shown"

section \<open>Running the calculation: errors and the log of oracle calls\<close>

text \<open>
  A computation inside the \<^verbatim>\<open>try\<close> block either throws or returns a value, and on the
  way it calls \<^verbatim>\<open>CP.PropsSI\<close>. Its model is the pair of the calls it made, in order, and
  its outcome. \<open>bind_calc\<close> is sequencing: nothing after a \<^verbatim>\<open>throw\<close> runs.
\<close>

type_synonym 'a calc = "query list \<times> (error + 'a)"

definition ret :: "'a \<Rightarrow> 'a calc" where
  "ret x = ([], Inr x)"

definition throw :: "error \<Rightarrow> 'a calc" where
  "throw e = ([], Inl e)"

definition bind_calc :: "'a calc \<Rightarrow> ('a \<Rightarrow> 'b calc) \<Rightarrow> 'b calc" where
  "bind_calc m f =
     (case m of
        (qs, Inl e) \<Rightarrow> (qs, Inl e)
      | (qs, Inr x) \<Rightarrow> (case f x of (qs', r) \<Rightarrow> (qs @ qs', r)))"

definition PropsSI ::
  "coolprop \<Rightarrow> string \<Rightarrow> string \<Rightarrow> num \<Rightarrow> string \<Rightarrow> num \<Rightarrow> string \<Rightarrow> num calc" where
  "PropsSI cp out name1 value1 name2 value2 fluid =
     ([(out, name1, value1, name2, value2, fluid)],
      (case cp (out, name1, value1, name2, value2, fluid) of
         Inl msg \<Rightarrow> Inl (OracleFailure msg)
       | Inr v \<Rightarrow> Inr v))"

section \<open>The calculation of \<^verbatim>\<open>handleCalculation\<close>\<close>

text \<open>
  The function is the click handler of the page, in the file whose header calls it the
  final corrected version of \<^verbatim>\<open>app.js\<close>. Its \<^verbatim>\<open>try\<close> block is one sequence of statements;
  the definitions below are its consecutive parts, named after the comments that head
  them, and \<open>calculate\<close> runs them in the order of the source. The local constants keep
  their names.
\<close>

definition KELVIN_OFFSET :: num where
  "KELVIN_OFFSET = Fin 273.15"

text \<open>The defensive check: the selected fluid belongs to the current tab.\<close>

definition checkFluid :: "tab \<Rightarrow> form \<Rightarrow> unit calc" where
  "checkFluid currentTab f =
     (if fluidName f \<notin> set (fluidMaps_values currentTab)
      then throw (FluidMismatch (fluidName f) currentTab)
      else ret ())"

text \<open>Inlet state: pressure in Pa and temperature in K.\<close>

definition determineInlet :: "coolprop \<Rightarrow> tab \<Rightarrow> form \<Rightarrow> (num \<times> num) calc" where
  "determineInlet cp currentTab f =
     (if currentTab = Gas \<or> inletMode f = PT then
        (let p1_pa = js_mul (inlet_pressure f) (Fin 100000);
             t1_k = js_add (inlet_temperature f) KELVIN_OFFSET
         in if isNaN p1_pa \<or> isNaN t1_k then throw InvalidPressureTemperature
            else ret (p1_pa, t1_k))
      else
        (let evap_temp_k = js_add (evap_temp f) KELVIN_OFFSET;
             superheat_k = superheat f
         in if isNaN evap_temp_k \<or> isNaN superheat_k then throw InvalidSaturationSuperheat
            else bind_calc (PropsSI cp ''P'' ''T'' evap_temp_k ''Q'' (Fin 1) (fluidName f))
                   (\<lambda>p1_pa. ret (p1_pa, js_add evap_temp_k superheat_k))))"

text \<open>Outlet pressure in Pa.\<close>

definition determineOutlet :: "coolprop \<Rightarrow> tab \<Rightarrow> form \<Rightarrow> num calc" where
  "determineOutlet cp currentTab f =
     (if currentTab = Gas \<or> outletMode f = Pressure then
        (let p2_pa = js_mul (outlet_pressure f) (Fin 100000)
         in if isNaN p2_pa then throw InvalidOutletPressure else ret p2_pa)
      else
        (let t_cond_k = js_add (condensing_temperature f) KELVIN_OFFSET
         in if isNaN t_cond_k then throw InvalidCondensingTemperature
            else PropsSI cp ''P'' ''T'' t_cond_k ''Q'' (Fin 0) (fluidName f)))"

text \<open>The two checks that follow: the efficiency, then the order of the pressures.\<close>

definition checkEfficiency :: "form \<Rightarrow> num calc" where
  "checkEfficiency f =
     (let eta_s = js_div (isentropic_efficiency f) (Fin 100)
      in if isNaN eta_s \<or> js_le eta_s (Fin 0) \<or> js_gt eta_s (Fin 1)
         then throw EfficiencyOutOfRange
         else ret eta_s)"

definition checkPressures :: "num \<Rightarrow> num \<Rightarrow> unit calc" where
  "checkPressures p2 p1 =
     (if js_ge p2 p1
      then throw (OutletNotBelowInlet (ToFixed (js_div p2 (Fin 100000)) 2)
                                      (ToFixed (js_div p1 (Fin 100000)) 2))
      else ret ())"

text \<open>
  The state points. Each is four calls at one pair of inputs, and a fifth for the quality
  only when the phase index is 3 (two-phase); the quality is \<open>-1\<close> otherwise. The
  specific volume is the reciprocal of the density. The arguments are the fluid and the
  values computed before: the pressures, the inlet temperature, the inlet entropy (which
  the source names \<^verbatim>\<open>s2s\<close> at the outlet), the two enthalpies and the efficiency.
\<close>

definition inletState ::
  "coolprop \<Rightarrow> string \<Rightarrow> num \<Rightarrow> num \<Rightarrow> (num \<times> num \<times> num \<times> num \<times> num) calc" where
  "inletState cp fluid p1 t1 =
     bind_calc (PropsSI cp ''H'' ''P'' p1 ''T'' t1 fluid) (\<lambda>h1.
     bind_calc (PropsSI cp ''S'' ''P'' p1 ''T'' t1 fluid) (\<lambda>s1.
     bind_calc (PropsSI cp ''D'' ''P'' p1 ''T'' t1 fluid) (\<lambda>d.
     bind_calc (PropsSI cp ''Phase'' ''P'' p1 ''T'' t1 fluid) (\<lambda>phase1.
     bind_calc (if phase1 = Fin 3 then PropsSI cp ''Q'' ''P'' p1 ''T'' t1 fluid
                else ret (Fin (- 1))) (\<lambda>x1.
     ret (h1, s1, js_div (Fin 1) d, phase1, x1))))))"

definition idealOutletState ::
  "coolprop \<Rightarrow> string \<Rightarrow> num \<Rightarrow> num \<Rightarrow> (num \<times> num \<times> num \<times> num \<times> num) calc" where
  "idealOutletState cp fluid p2 s =
     bind_calc (PropsSI cp ''H'' ''P'' p2 ''S'' s fluid) (\<lambda>h2s.
     bind_calc (PropsSI cp ''T'' ''P'' p2 ''S'' s fluid) (\<lambda>t2s_k.
     bind_calc (PropsSI cp ''D'' ''P'' p2 ''S'' s fluid) (\<lambda>d.
     bind_calc (PropsSI cp ''Phase'' ''P'' p2 ''S'' s fluid) (\<lambda>phase2s.
     bind_calc (if phase2s = Fin 3 then PropsSI cp ''Q'' ''P'' p2 ''S'' s fluid
                else ret (Fin (- 1))) (\<lambda>x2s.
     ret (h2s, t2s_k, js_div (Fin 1) d, phase2s, x2s))))))"

definition actualOutletState ::
  "coolprop \<Rightarrow> string \<Rightarrow> num \<Rightarrow> num \<Rightarrow> num \<Rightarrow> num
     \<Rightarrow> (num \<times> num \<times> num \<times> num \<times> num \<times> num) calc" where
  "actualOutletState cp fluid p2 h h' eta =
     (let h2a = js_sub h (js_mul (js_sub h h') eta) in
      bind_calc (PropsSI cp ''T'' ''P'' p2 ''H'' h2a fluid) (\<lambda>t2a_k.
      bind_calc (PropsSI cp ''S'' ''P'' p2 ''H'' h2a fluid) (\<lambda>s2a.
      bind_calc (PropsSI cp ''D'' ''P'' p2 ''H'' h2a fluid) (\<lambda>d.
      bind_calc (PropsSI cp ''Phase'' ''P'' p2 ''H'' h2a fluid) (\<lambda>phase2a.
      bind_calc (if phase2a = Fin 3 then PropsSI cp ''Q'' ''P'' p2 ''H'' h2a fluid
                 else ret (Fin (- 1))) (\<lambda>x2a.
      ret (h2a, t2a_k, s2a, js_div (Fin 1) d, phase2a, x2a)))))))"

text \<open>The mass flow in kg/s, by the \<^verbatim>\<open>switch\<close> on the flow mode; the argument is \<^verbatim>\<open>v1\<close>.\<close>

definition massFlow :: "form \<Rightarrow> num \<Rightarrow> num calc" where
  "massFlow f v =
     (case flowMode f of
        Mass \<Rightarrow>
          (let massFlow_kg_s = mass_flow f
           in if isNaN massFlow_kg_s \<or> js_le massFlow_kg_s (Fin 0)
              then throw MassFlowNotPositive
              else ret massFlow_kg_s)
      | Displacement \<Rightarrow>
          (let Vg_cm3 = displacement f;
               rpm = rpm f;
               eta_v = js_div (volumetric_efficiency f) (Fin 100)
           in if isNaN Vg_cm3 \<or> isNaN rpm \<or> isNaN eta_v then throw DisplacementInputInvalid
              else if js_le Vg_cm3 (Fin 0) \<or> js_le rpm (Fin 0) \<or> js_le eta_v (Fin 0)
              then throw DisplacementNotPositive
              else ret (js_div
                          (js_mul (js_div (js_mul (js_div Vg_cm3 (Fin 1000000)) rpm) (Fin 60))
                                  eta_v)
                          v))
      | Volume \<Rightarrow>
          (let volume_flow_m3h = volume_flow_rate f
           in if isNaN volume_flow_m3h \<or> js_le volume_flow_m3h (Fin 0)
              then throw VolumeFlowNotPositive
              else ret (js_div (js_div volume_flow_m3h (Fin 3600)) v)))"

text \<open>The local constants of a calculation that ran to the end.\<close>

record results =
  p1_pa :: num
  t1_k :: num
  p2_pa :: num
  eta_s :: num
  h1 :: num
  s1 :: num
  v1 :: num
  phase1 :: num
  x1 :: num
  s2s :: num
  h2s :: num
  t2s_k :: num
  v2s :: num
  phase2s :: num
  x2s :: num
  h2a :: num
  t2a_k :: num
  s2a :: num
  v2a :: num
  phase2a :: num
  x2a :: num
  massFlow_kg_s :: num
  power_W :: num
  final_inlet_volume_flow_m3h :: num

text \<open>
  The three parts of the \<^verbatim>\<open>try\<close> block before the results are shown: reading and checking
  the inputs (up to the check of the pressures), the property calls of the state points
  (up to fifteen), and the flow and power.
\<close>

definition readInputs :: "coolprop \<Rightarrow> tab \<Rightarrow> form \<Rightarrow> (num \<times> num \<times> num \<times> num) calc" where
  "readInputs cp currentTab f =
     bind_calc (checkFluid currentTab f) (\<lambda>_.
     bind_calc (determineInlet cp currentTab f) (\<lambda>(p1_pa, t1_k).
     bind_calc (determineOutlet cp currentTab f) (\<lambda>p2_pa.
     bind_calc (checkEfficiency f) (\<lambda>eta_s.
     bind_calc (checkPressures p2_pa p1_pa) (\<lambda>_.
     ret (p1_pa, t1_k, p2_pa, eta_s))))))"

definition statePoints ::
  "coolprop \<Rightarrow> string \<Rightarrow> num \<Rightarrow> num \<Rightarrow> num \<Rightarrow> num
     \<Rightarrow> ((num \<times> num \<times> num \<times> num \<times> num) \<times> (num \<times> num \<times> num \<times> num \<times> num)
          \<times> (num \<times> num \<times> num \<times> num \<times> num \<times> num)) calc" where
  "statePoints cp fluid p1 t1 p2 eta =
     bind_calc (inletState cp fluid p1 t1) (\<lambda>(h1, s1, v1, phase1, x1).
     (let s2s = s1 in
      bind_calc (idealOutletState cp fluid p2 s2s) (\<lambda>(h2s, t2s_k, v2s, phase2s, x2s).
      bind_calc (actualOutletState cp fluid p2 h1 h2s eta) (\<lambda>a.
      ret ((h1, s1, v1, phase1, x1), (h2s, t2s_k, v2s, phase2s, x2s), a)))))"

definition calculate :: "coolprop \<Rightarrow> tab \<Rightarrow> form \<Rightarrow> results calc" where
  "calculate cp currentTab f =
     bind_calc (readInputs cp currentTab f) (\<lambda>(p1_pa, t1_k, p2_pa, eta_s).
     bind_calc (statePoints cp (fluidName f) p1_pa t1_k p2_pa eta_s)
       (\<lambda>((h1, s1, v1, phase1, x1), (h2s, t2s_k, v2s, phase2s, x2s),
          (h2a, t2a_k, s2a, v2a, phase2a, x2a)).
     bind_calc (massFlow f v1) (\<lambda>massFlow_kg_s.
     ret \<lparr> p1_pa = p1_pa, t1_k = t1_k, p2_pa = p2_pa, eta_s = eta_s,
           h1 = h1, s1 = s1, v1 = v1, phase1 = phase1, x1 = x1,
           s2s = s1, h2s = h2s, t2s_k = t2s_k, v2s = v2s, phase2s = phase2s, x2s = x2s,
           h2a = h2a, t2a_k = t2a_k, s2a = s2a, v2a = v2a, phase2a = phase2a, x2a = x2a,
           massFlow_kg_s = massFlow_kg_s,
           power_W = js_mul massFlow_kg_s (js_sub h1 h2a),
           final_inlet_volume_flow_m3h = js_mul (js_mul massFlow_kg_s v1) (Fin 3600) \<rparr>)))"

section \<open>Showing the results\<close>

text \<open>
  \<^verbatim>\<open>formatPhase\<close>: the label of a phase index, and in the two-phase region the quality,
  with the two saturated states named when the quality is within \<open>1e-9\<close> of 0 or of 1.
  On the gas tab the cell always shows \<^verbatim>\<open>N/A\<close>.
\<close>

definition formatPhase :: "tab \<Rightarrow> num \<Rightarrow> num \<Rightarrow> shown" where
  "formatPhase currentTab phaseIndex qualityValue =
     (if currentTab = Gas then Label NotApplicable
      else if phaseIndex = Fin 0 then Label Subcooled
      else if phaseIndex = Fin 5 then Label Superheated
      else if phaseIndex = Fin 3 then
        (if js_gt qualityValue (Fin (- (1 / 10 ^ 9))) \<and> js_lt qualityValue (Fin (1 / 10 ^ 9))
         then Label SaturatedLiquid
         else if js_gt qualityValue (Fin (1 - 1 / 10 ^ 9))
                 \<and> js_lt qualityValue (Fin (1 + 1 / 10 ^ 9))
         then Label SaturatedVapour
         else ToFixed qualityValue 4)
      else if phaseIndex = Fin 1 then Label Supercritical
      else if phaseIndex = Fin 2 then Label SupercriticalGas
      else if phaseIndex = Fin 4 then Label SupercriticalLiquid
      else Label Dashes)"

text \<open>
  The writes of the success path, in source order: the three summary fields (power in kW,
  mass flow in kg/s, inlet volume flow in m3/h), then the three rows of the table.
\<close>

definition written :: "tab \<Rightarrow> results \<Rightarrow> (string \<times> shown) list" where
  "written currentTab r =
     [(''result-power'', ToFixed (js_div (power_W r) (Fin 1000)) 2),
      (''result-mass-flow'', ToFixed (massFlow_kg_s r) 3),
      (''result-volume-flow'', ToFixed (final_inlet_volume_flow_m3h r) 2),
      (''val-p1'', ToFixed (js_div (p1_pa r) (Fin 100000)) 2),
      (''val-t1'', ToFixed (js_sub (t1_k r) KELVIN_OFFSET) 2),
      (''val-h1'', ToFixed (js_div (h1 r) (Fin 1000)) 2),
      (''val-s1'', ToFixed (js_div (s1 r) (Fin 1000)) 4),
      (''val-v1'', ToFixed (v1 r) 5),
      (''val-x1'', formatPhase currentTab (phase1 r) (x1 r)),
      (''val-p2s'', ToFixed (js_div (p2_pa r) (Fin 100000)) 2),
      (''val-t2s'', ToFixed (js_sub (t2s_k r) KELVIN_OFFSET) 2),
      (''val-h2s'', ToFixed (js_div (h2s r) (Fin 1000)) 2),
      (''val-s2s'', ToFixed (js_div (s2s r) (Fin 1000)) 4),
      (''val-v2s'', ToFixed (v2s r) 5),
      (''val-x2s'', formatPhase currentTab (phase2s r) (x2s r)),
      (''val-p2a'', ToFixed (js_div (p2_pa r) (Fin 100000)) 2),
      (''val-t2a'', ToFixed (js_sub (t2a_k r) KELVIN_OFFSET) 2),
      (''val-h2a'', ToFixed (js_div (h2a r) (Fin 1000)) 2),
      (''val-s2a'', ToFixed (js_div (s2a r) (Fin 1000)) 4),
      (''val-v2a'', ToFixed (v2a r) 5),
      (''val-x2a'', formatPhase currentTab (phase2a r) (x2a r))]"

fun write_all :: "(string \<times> shown) list \<Rightarrow> (string \<rightharpoonup> shown) \<Rightarrow> (string \<rightharpoonup> shown)" where
  "write_all [] c = c"
| "write_all ((i, v) # ws) c = write_all ws (c(i \<mapsto> v))"

definition showResults :: "tab \<Rightarrow> results \<Rightarrow> page \<Rightarrow> page" where
  "showResults currentTab r d =
     d \<lparr> content := write_all (written currentTab r) (content d),
         statusBar_textContent := Completed,
         statusBar_backgroundColor := ''#f6ffed'',
         statusBar_color := ''#389e0d'' \<rparr>"

text \<open>
  The handler: the guard on \<^verbatim>\<open>CP\<close>, the \<^verbatim>\<open>try\<close> block and its \<^verbatim>\<open>catch\<close>. It returns the
  calls made to the property library and the page after the click.
\<close>

definition handleCalculation ::
  "coolprop option \<Rightarrow> tab \<Rightarrow> form \<Rightarrow> page \<Rightarrow> query list \<times> page" where
  "handleCalculation CP currentTab f d =
     (case CP of
        None \<Rightarrow> ([], d \<lparr> statusBar_textContent := NotLoaded \<rparr>)
      | Some cp \<Rightarrow>
          (case calculate cp currentTab f of
             (qs, Inr r) \<Rightarrow> (qs, showResults currentTab r d)
           | (qs, Inl err) \<Rightarrow>
               (qs, d \<lparr> statusBar_textContent := CalculationError err,
                        statusBar_backgroundColor := ''#fff1f0'',
                        statusBar_color := ''#cf1322'' \<rparr>)))"

section \<open>The quality label of the earlier revision\<close>

text \<open>
  \<^verbatim>\<open>formatQuality\<close> of \<^verbatim>\<open>js/app.js\<close>, the earlier revision of the page: it labels a cell
  from the quality alone, without a phase index (labels: subcooled, superheated, \<^verbatim>\<open>--\<close>).
  The final revision replaced it by \<open>formatPhase\<close>.
\<close>

definition formatQuality :: "num \<Rightarrow> shown" where
  "formatQuality x =
     (if js_gt x (Fin 0) \<and> js_lt x (Fin 1) then ToFixed x 4
      else if js_le x (Fin 0) \<or> x = NInf then Label Subcooled
      else if js_ge x (Fin 1) \<or> x = PInf then Label Superheated
      else Label Dashes)"

section \<open>Notions used in the statements\<close>

text \<open>The efficiency field, as a fraction, lies in the interval (0, 1].\<close>

definition validEfficiency :: "form \<Rightarrow> bool" where
  "validEfficiency f =
     (let eta = js_div (isentropic_efficiency f) (Fin 100)
      in js_lt (Fin 0) eta \<and> js_le eta (Fin 1))"

text \<open>
  The two saturation-pressure lookups that resolve the pressures: the one of the
  saturation-temperature/superheat inlet mode and the one of the condensing-temperature
  outlet mode.
\<close>

definition saturationInlet :: "form \<Rightarrow> query" where
  "saturationInlet f =
     (''P'', ''T'', js_add (evap_temp f) KELVIN_OFFSET, ''Q'', Fin 1, fluidName f)"

definition saturationOutlet :: "form \<Rightarrow> query" where
  "saturationOutlet f =
     (''P'', ''T'', js_add (condensing_temperature f) KELVIN_OFFSET, ''Q'', Fin 0, fluidName f)"

text \<open>
  A numeric input of the selected flow mode is zero or negative; and the error that the
  flow step throws for such a form.
\<close>

definition nonPositiveFlowInput :: "form \<Rightarrow> bool" where
  "nonPositiveFlowInput f =
     (case flowMode f of
        Mass \<Rightarrow> js_le (mass_flow f) (Fin 0)
      | Displacement \<Rightarrow>
          js_le (displacement f) (Fin 0) \<or> js_le (rpm f) (Fin 0)
          \<or> js_le (volumetric_efficiency f) (Fin 0)
      | Volume \<Rightarrow> js_le (volume_flow_rate f) (Fin 0))"

definition flowError :: "form \<Rightarrow> error" where
  "flowError f =
     (case flowMode f of
        Mass \<Rightarrow> MassFlowNotPositive
      | Displacement \<Rightarrow>
          if isNaN (displacement f) \<or> isNaN (rpm f) \<or> isNaN (volumetric_efficiency f)
          then DisplacementInputInvalid else DisplacementNotPositive
      | Volume \<Rightarrow> VolumeFlowNotPositive)"

text \<open>
  Two properties of a computation, for the proofs: every error it can throw satisfies
  \<open>P\<close>; and an error thrown by a call to the property library is the error of the
  computation.
\<close>

definition raises_only :: "(error \<Rightarrow> bool) \<Rightarrow> 'a calc \<Rightarrow> bool" where
  "raises_only P c = (\<forall>e. snd c = Inl e \<longrightarrow> P e)"

definition reports_oracle :: "coolprop \<Rightarrow> 'a calc \<Rightarrow> bool" where
  "reports_oracle cp c =
     (\<forall>q \<in> set (fst c). \<forall>msg. cp q = Inl msg \<longrightarrow> snd c = Inl (OracleFailure msg))"

section \<open>Example inputs\<close>

text \<open>
  The form as \<^verbatim>\<open>clearForm\<close> leaves it (the default values of the page: 20 bar, 150 C,
  4 bar, 85 percent, 1 kg/s, 500 cm3, 3000 rpm, 90 percent, 100 m3/h; direct pressure and
  temperature, direct outlet pressure, mass flow), for a selected fluid.
\<close>

definition clearForm :: "string \<Rightarrow> form" where
  "clearForm fluid =
     \<lparr> fluidName = fluid, inletMode = PT, inlet_pressure = Fin 20,
       inlet_temperature = Fin 150, evap_temp = Fin 120, superheat = Fin 10,
       outletMode = Pressure, outlet_pressure = Fin 4, condensing_temperature = Fin 30,
       isentropic_efficiency = Fin 85, flowMode = Mass, mass_flow = Fin 1,
       displacement = Fin 500, rpm = Fin 3000, volumetric_efficiency = Fin 90,
       volume_flow_rate = Fin 100 \<rparr>"

text \<open>A page on which nothing has been written.\<close>

definition freshPage :: page where
  "freshPage =
     \<lparr> statusBar_textContent = OtherText [], statusBar_backgroundColor = [],
       statusBar_color = [], content = Map.empty \<rparr>"

text \<open>
  Four property libraries for the examples. \<open>toyOracle\<close> answers every call with a fixed
  value for each output; it is consistent at the outlet: temperature and entropy do not
  depend on whether the state is given by entropy or by enthalpy. \<open>skewedOracle\<close> is
  still a function of the arguments of the call, but gives another temperature and
  entropy when the state is given by enthalpy. \<open>unboundedOracle\<close> answers
  \<^verbatim>\<open>Infinity\<close> for the enthalpy at the inlet. \<open>brokenOracle\<close> throws on every call.
\<close>

definition toyOracle :: coolprop where
  "toyOracle q =
     (case q of (out, name1, a, name2, b, fluid) \<Rightarrow>
        if out = ''P'' then Inr (if b = Fin 1 then Fin 2000000 else Fin 400000)
        else if out = ''H'' then Inr (if name2 = ''T'' then Fin 2800000 else Fin 2500000)
        else if out = ''S'' then Inr (Fin 6500)
        else if out = ''T'' then Inr (Fin 420)
        else if out = ''D'' then Inr (Fin 8)
        else if out = ''Phase'' then Inr (if name2 = ''H'' then Fin 3 else Fin 5)
        else if out = ''Q'' then Inr (Fin 0.95)
        else Inl ''unknown output'')"

definition skewedOracle :: coolprop where
  "skewedOracle q =
     (case q of (out, name1, a, name2, b, fluid) \<Rightarrow>
        if out = ''T'' \<and> name2 = ''H'' then Inr (Fin 430)
        else if out = ''S'' \<and> name2 = ''H'' then Inr (Fin 6600)
        else toyOracle q)"

definition unboundedOracle :: coolprop where
  "unboundedOracle q =
     (case q of (out, name1, a, name2, b, fluid) \<Rightarrow>
        if out = ''H'' \<and> name2 = ''T'' then Inr PInf
        else toyOracle q)"

definition brokenOracle :: coolprop where
  "brokenOracle q = Inl ''inputs out of range''"

text \<open>The calls and the values of the default form for water with \<open>toyOracle\<close>.\<close>

definition toyQueries :: "num \<Rightarrow> query list" where
  "toyQueries ha =
     [(''H'', ''P'', Fin 2000000, ''T'', Fin 423.15, ''Water''),
      (''S'', ''P'', Fin 2000000, ''T'', Fin 423.15, ''Water''),
      (''D'', ''P'', Fin 2000000, ''T'', Fin 423.15, ''Water''),
      (''Phase'', ''P'', Fin 2000000, ''T'', Fin 423.15, ''Water''),
      (''H'', ''P'', Fin 400000, ''S'', Fin 6500, ''Water''),
      (''T'', ''P'', Fin 400000, ''S'', Fin 6500, ''Water''),
      (''D'', ''P'', Fin 400000, ''S'', Fin 6500, ''Water''),
      (''Phase'', ''P'', Fin 400000, ''S'', Fin 6500, ''Water''),
      (''T'', ''P'', Fin 400000, ''H'', ha, ''Water''),
      (''S'', ''P'', Fin 400000, ''H'', ha, ''Water''),
      (''D'', ''P'', Fin 400000, ''H'', ha, ''Water''),
      (''Phase'', ''P'', Fin 400000, ''H'', ha, ''Water''),
      (''Q'', ''P'', Fin 400000, ''H'', ha, ''Water'')]"

definition toyResults :: results where
  "toyResults =
     \<lparr> p1_pa = Fin 2000000, t1_k = Fin 423.15, p2_pa = Fin 400000, eta_s = Fin 0.85,
       h1 = Fin 2800000, s1 = Fin 6500, v1 = Fin 0.125, phase1 = Fin 5, x1 = Fin (- 1),
       s2s = Fin 6500, h2s = Fin 2500000, t2s_k = Fin 420, v2s = Fin 0.125,
       phase2s = Fin 5, x2s = Fin (- 1),
       h2a = Fin 2545000, t2a_k = Fin 420, s2a = Fin 6500, v2a = Fin 0.125,
       phase2a = Fin 3, x2a = Fin 0.95,
       massFlow_kg_s = Fin 1, power_W = Fin 255000,
       final_inlet_volume_flow_m3h = Fin 450 \<rparr>"

section \<open>Arithmetic facts\<close>

lemma js_mul_commute: "js_mul a b = js_mul b a"
  by (cases a; cases b) (simp_all add: mult.commute)

lemma js_lt_not_ge: "js_lt a b \<Longrightarrow> \<not> js_ge a b"
  by (cases a; cases b) (simp_all add: js_ge_def)

lemma js_le_div_100: "js_le (js_div x (Fin 100)) (Fin 0) = js_le x (Fin 0)"
  by (cases x) (simp_all add: divide_le_0_iff)

lemma isNaN_div_100: "isNaN (js_div x (Fin 100)) = isNaN x"
  by (cases x) simp_all

section \<open>Sequencing\<close>

lemma ret_Inr_iff: "ret x = (qs, Inr y) \<longleftrightarrow> qs = [] \<and> x = y"
  by (auto simp: ret_def)

lemma throw_Inr_iff: "throw e = (qs, Inr y) \<longleftrightarrow> False"
  by (simp add: throw_def)

lemma bind_calc_Inr_iff:
  "bind_calc m f = (qs, Inr y) \<longleftrightarrow>
     (\<exists>qs1 x qs2. m = (qs1, Inr x) \<and> f x = (qs2, Inr y) \<and> qs = qs1 @ qs2)"
  by (cases m; cases "snd m") (auto simp: bind_calc_def split: prod.splits)

lemma PropsSI_Inr_iff:
  "PropsSI cp out n1 a n2 b fl = (qs, Inr v) \<longleftrightarrow>
     qs = [(out, n1, a, n2, b, fl)] \<and> cp (out, n1, a, n2, b, fl) = Inr v"
  by (auto simp: PropsSI_def split: sum.splits)

lemmas Inr_iffs = ret_Inr_iff throw_Inr_iff bind_calc_Inr_iff PropsSI_Inr_iff

lemma snd_bind_calc:
  "snd (bind_calc m f) = (case snd m of Inl e \<Rightarrow> Inl e | Inr x \<Rightarrow> snd (f x))"
  by (cases m; cases "snd m") (auto simp: bind_calc_def split: prod.splits)

lemma fst_bind_calc:
  "fst (bind_calc m f) = fst m @ (case snd m of Inl e \<Rightarrow> [] | Inr x \<Rightarrow> fst (f x))"
  by (cases m; cases "snd m") (auto simp: bind_calc_def split: prod.splits)

lemma raises_only_ret: "raises_only P (ret x)"
  by (simp add: raises_only_def ret_def)

lemma raises_only_throw: "P e \<Longrightarrow> raises_only P (throw e)"
  by (simp add: raises_only_def throw_def)

lemma raises_only_PropsSI:
  "(\<And>msg. P (OracleFailure msg)) \<Longrightarrow> raises_only P (PropsSI cp out n1 a n2 b fl)"
  by (auto simp: raises_only_def PropsSI_def split: sum.splits)

lemma raises_only_bind:
  "raises_only P m \<Longrightarrow> (\<And>x. raises_only P (f x)) \<Longrightarrow> raises_only P (bind_calc m f)"
  by (auto simp: raises_only_def snd_bind_calc split: sum.splits)

lemma raises_only_if:
  "(b \<Longrightarrow> raises_only P m) \<Longrightarrow> (\<not> b \<Longrightarrow> raises_only P n) \<Longrightarrow>
     raises_only P (if b then m else n)"
  by simp

lemmas raises_only_intros =
  raises_only_bind raises_only_if raises_only_ret raises_only_throw raises_only_PropsSI

lemma reports_oracle_ret: "reports_oracle cp (ret x)"
  by (simp add: reports_oracle_def ret_def)

lemma reports_oracle_throw: "reports_oracle cp (throw e)"
  by (simp add: reports_oracle_def throw_def)

lemma reports_oracle_PropsSI: "reports_oracle cp (PropsSI cp out n1 a n2 b fl)"
  by (simp add: reports_oracle_def PropsSI_def)

lemma reports_oracle_silent: "fst c = [] \<Longrightarrow> reports_oracle cp c"
  by (simp add: reports_oracle_def)

lemma reports_oracle_bind:
  assumes "reports_oracle cp m" and "\<And>x. reports_oracle cp (f x)"
  shows "reports_oracle cp (bind_calc m f)"
proof (cases m)
  case (Pair qs res)
  show ?thesis
  proof (cases res)
    case (Inl e)
    with Pair assms(1) show ?thesis
      by (simp add: bind_calc_def reports_oracle_def)
  next
    case (Inr x)
    with Pair assms(1) have ok: "\<forall>q \<in> set qs. \<forall>msg. cp q \<noteq> Inl msg"
      by (auto simp: reports_oracle_def)
    from assms(2) [of x] ok Pair Inr show ?thesis
      by (cases "f x") (auto simp: reports_oracle_def bind_calc_def)
  qed
qed

lemma reports_oracle_if:
  "(b \<Longrightarrow> reports_oracle cp m) \<Longrightarrow> (\<not> b \<Longrightarrow> reports_oracle cp n) \<Longrightarrow>
     reports_oracle cp (if b then m else n)"
  by simp

lemmas reports_oracle_intros =
  reports_oracle_bind reports_oracle_if reports_oracle_ret reports_oracle_throw
  reports_oracle_PropsSI

section \<open>The parts of the calculation\<close>

lemma checkFluid_ok:
  "fluidName f \<in> set (fluidMaps_values tab) \<Longrightarrow> checkFluid tab f = ([], Inr ())"
  by (simp add: checkFluid_def ret_def)

lemma checkEfficiency_valid:
  "validEfficiency f \<Longrightarrow>
     checkEfficiency f = ([], Inr (js_div (isentropic_efficiency f) (Fin 100)))"
  unfolding validEfficiency_def checkEfficiency_def Let_def
  by (cases "js_div (isentropic_efficiency f) (Fin 100)")
     (simp_all add: ret_def throw_def js_gt_def)

lemma checkEfficiency_invalid:
  "\<not> validEfficiency f \<Longrightarrow> checkEfficiency f = ([], Inl EfficiencyOutOfRange)"
  unfolding validEfficiency_def checkEfficiency_def Let_def
  by (cases "js_div (isentropic_efficiency f) (Fin 100)")
     (auto simp: ret_def throw_def js_gt_def)

lemma fst_checkFluid: "fst (checkFluid tab f) = []"
  by (simp add: checkFluid_def ret_def throw_def)

lemma fst_checkEfficiency: "fst (checkEfficiency f) = []"
  by (simp add: checkEfficiency_def Let_def ret_def throw_def)

lemma fst_checkPressures: "fst (checkPressures p2 p1) = []"
  by (simp add: checkPressures_def ret_def throw_def)

lemma fst_massFlow: "fst (massFlow f v) = []"
  by (cases "flowMode f") (simp_all add: massFlow_def Let_def ret_def throw_def)

lemma fst_determineInlet:
  "fst (determineInlet cp tab f) =
     (if tab = Gas \<or> inletMode f = PT \<or> isNaN (js_add (evap_temp f) KELVIN_OFFSET)
         \<or> isNaN (superheat f)
      then [] else [saturationInlet f])"
  by (simp add: determineInlet_def Let_def ret_def throw_def fst_bind_calc PropsSI_def
      saturationInlet_def split: sum.splits)

lemma fst_determineOutlet:
  "fst (determineOutlet cp tab f) =
     (if tab = Gas \<or> outletMode f = Pressure
         \<or> isNaN (js_add (condensing_temperature f) KELVIN_OFFSET)
      then [] else [saturationOutlet f])"
  by (simp add: determineOutlet_def Let_def ret_def throw_def PropsSI_def
      saturationOutlet_def)

lemma fst_readInputs:
  "fst (readInputs cp tab f) =
     (case snd (checkFluid tab f) of
        Inl e \<Rightarrow> []
      | Inr u \<Rightarrow>
          fst (determineInlet cp tab f)
          @ (case snd (determineInlet cp tab f) of
               Inl e \<Rightarrow> []
             | Inr pt \<Rightarrow> fst (determineOutlet cp tab f)))"
  by (simp add: readInputs_def fst_bind_calc snd_bind_calc fst_checkFluid fst_checkEfficiency
      fst_checkPressures ret_def split_beta split: sum.splits)

lemma snd_readInputs_invalid:
  "\<not> validEfficiency f \<Longrightarrow> \<exists>e. snd (readInputs cp tab f) = Inl e"
  by (simp add: readInputs_def snd_bind_calc checkEfficiency_invalid split_beta
      split: sum.splits)

lemma readInputs_resolved:
  assumes "fluidName f \<in> set (fluidMaps_values tab)"
    and "determineInlet cp tab f = (qs1, Inr (p1, t1))"
    and "determineOutlet cp tab f = (qs2, Inr p2)"
  shows "readInputs cp tab f =
           (qs1 @ qs2,
            if validEfficiency f then
              (if js_ge p2 p1
               then Inl (OutletNotBelowInlet (ToFixed (js_div p2 (Fin 100000)) 2)
                                             (ToFixed (js_div p1 (Fin 100000)) 2))
               else Inr (p1, t1, p2, js_div (isentropic_efficiency f) (Fin 100)))
            else Inl EfficiencyOutOfRange)"
proof (cases "validEfficiency f")
  case True
  then show ?thesis
    using assms
    by (simp add: readInputs_def checkFluid_ok checkEfficiency_valid checkPressures_def
        bind_calc_def ret_def throw_def)
next
  case False
  then show ?thesis
    using assms
    by (simp add: readInputs_def checkFluid_ok checkEfficiency_invalid bind_calc_def)
qed

lemma readInputs_efficiency:
  "readInputs cp tab f = (qs, Inr (p1, t1, p2, eta)) \<Longrightarrow>
     eta = js_div (isentropic_efficiency f) (Fin 100)"
  unfolding readInputs_def checkEfficiency_def Let_def
  by (auto simp: Inr_iffs split: if_splits)

lemma inletState_Inr:
  assumes "inletState cp fl p1 t1 = (qs, Inr (h, s, v, ph, x))"
  shows "cp (''H'', ''P'', p1, ''T'', t1, fl) = Inr h"
    and "cp (''S'', ''P'', p1, ''T'', t1, fl) = Inr s"
    and "\<exists>d. cp (''D'', ''P'', p1, ''T'', t1, fl) = Inr d \<and> v = js_div (Fin 1) d"
    and "cp (''Phase'', ''P'', p1, ''T'', t1, fl) = Inr ph"
    and "if ph = Fin 3 then cp (''Q'', ''P'', p1, ''T'', t1, fl) = Inr x else x = Fin (- 1)"
  using assms unfolding inletState_def
  by (auto simp: Inr_iffs split: if_splits)

lemma idealOutletState_Inr:
  assumes "idealOutletState cp fl p2 s = (qs, Inr (h, t, v, ph, x))"
  shows "cp (''H'', ''P'', p2, ''S'', s, fl) = Inr h"
    and "cp (''T'', ''P'', p2, ''S'', s, fl) = Inr t"
  using assms unfolding idealOutletState_def
  by (auto simp: Inr_iffs split: if_splits)

lemma actualOutletState_Inr:
  assumes "actualOutletState cp fl p2 h h' eta = (qs, Inr (ha, t, s, v, ph, x))"
  shows "ha = js_sub h (js_mul (js_sub h h') eta)"
    and "cp (''T'', ''P'', p2, ''H'', ha, fl) = Inr t"
    and "cp (''S'', ''P'', p2, ''H'', ha, fl) = Inr s"
    and "\<exists>d. cp (''D'', ''P'', p2, ''H'', ha, fl) = Inr d \<and> v = js_div (Fin 1) d"
    and "cp (''Phase'', ''P'', p2, ''H'', ha, fl) = Inr ph"
    and "if ph = Fin 3 then cp (''Q'', ''P'', p2, ''H'', ha, fl) = Inr x else x = Fin (- 1)"
    and "qs = [(''T'', ''P'', p2, ''H'', ha, fl), (''S'', ''P'', p2, ''H'', ha, fl),
               (''D'', ''P'', p2, ''H'', ha, fl), (''Phase'', ''P'', p2, ''H'', ha, fl)]
              @ (if ph = Fin 3 then [(''Q'', ''P'', p2, ''H'', ha, fl)] else [])"
  using assms unfolding actualOutletState_def Let_def
  by (auto simp: Inr_iffs split: if_splits)

lemma statePoints_Inr:
  assumes "statePoints cp fl p1 t1 p2 eta
             = (qs, Inr ((h, s, v, ph, x), (h', t', v', ph', x'), a))"
  shows "\<exists>q1 q2 q3.
           inletState cp fl p1 t1 = (q1, Inr (h, s, v, ph, x))
         \<and> idealOutletState cp fl p2 s = (q2, Inr (h', t', v', ph', x'))
         \<and> actualOutletState cp fl p2 h h' eta = (q3, Inr a)
         \<and> qs = q1 @ q2 @ q3"
  using assms unfolding statePoints_def Let_def
  by (auto simp: Inr_iffs)

lemma calculate_Inr:
  assumes "calculate cp tab f = (qs, Inr r)"
  shows "\<exists>qs1 qs2 qs3.
           readInputs cp tab f = (qs1, Inr (p1_pa r, t1_k r, p2_pa r, eta_s r))
         \<and> statePoints cp (fluidName f) (p1_pa r) (t1_k r) (p2_pa r) (eta_s r)
             = (qs2, Inr ((h1 r, s1 r, v1 r, phase1 r, x1 r),
                          (h2s r, t2s_k r, v2s r, phase2s r, x2s r),
                          (h2a r, t2a_k r, s2a r, v2a r, phase2a r, x2a r)))
         \<and> massFlow f (v1 r) = (qs3, Inr (massFlow_kg_s r))
         \<and> s2s r = s1 r
         \<and> power_W r = js_mul (massFlow_kg_s r) (js_sub (h1 r) (h2a r))
         \<and> final_inlet_volume_flow_m3h r = js_mul (js_mul (massFlow_kg_s r) (v1 r)) (Fin 3600)
         \<and> qs = qs1 @ qs2 @ qs3"
  using assms unfolding calculate_def
  by (auto simp: Inr_iffs)

lemma statePoints_raises:
  "raises_only (\<lambda>e. \<exists>msg. e = OracleFailure msg) (statePoints cp fl p1 t1 p2 eta)"
  unfolding statePoints_def inletState_def idealOutletState_def actualOutletState_def
    Let_def split_beta
  by (intro raises_only_intros) blast+

lemma massFlow_raises:
  "raises_only (\<lambda>e. e \<in> {MassFlowNotPositive, DisplacementInputInvalid,
                         DisplacementNotPositive, VolumeFlowNotPositive}) (massFlow f v)"
  unfolding massFlow_def Let_def
  by (cases "flowMode f") (auto intro!: raises_only_intros)

lemma massFlow_nonPositive:
  "nonPositiveFlowInput f \<Longrightarrow> massFlow f v = ([], Inl (flowError f))"
  by (cases "flowMode f")
     (auto simp: nonPositiveFlowInput_def flowError_def massFlow_def Let_def throw_def
        isNaN_div_100 js_le_div_100)

lemma calculate_inputs_fail:
  "readInputs cp tab f = (qs, Inl e) \<Longrightarrow> calculate cp tab f = (qs, Inl e)"
  by (simp add: calculate_def bind_calc_def)

lemma calculate_flow_fail:
  assumes "readInputs cp tab f = (qs1, Inr (p1, t1, p2, eta))"
    and "statePoints cp (fluidName f) p1 t1 p2 eta = (qs2, Inr sp)"
    and "massFlow f (fst (snd (snd (fst sp)))) = (qs3, Inl e)"
  shows "calculate cp tab f = (qs1 @ qs2 @ qs3, Inl e)"
  using assms by (cases sp) (auto simp: calculate_def bind_calc_def)

lemma calculate_after_inputs:
  assumes "readInputs cp tab f = (qs, Inr (p1, t1, p2, eta))"
  shows "raises_only (\<lambda>e. \<forall>a b. e \<noteq> OutletNotBelowInlet a b) (calculate cp tab f)"
proof -
  have "snd (calculate cp tab f) = Inl e \<Longrightarrow> \<forall>a b. e \<noteq> OutletNotBelowInlet a b" for e
    using statePoints_raises [of cp "fluidName f" p1 t1 p2 eta, unfolded raises_only_def]
      assms
    apply (simp add: calculate_def snd_bind_calc split: sum.splits prod.splits)
     apply blast
    using massFlow_raises [unfolded raises_only_def]
    apply (auto simp: ret_def)
    done
  then show ?thesis by (simp add: raises_only_def)
qed

lemma massFlow_reports: "reports_oracle cp (massFlow f v)"
  by (simp add: reports_oracle_def fst_massFlow)

lemma determineInlet_reports: "reports_oracle cp (determineInlet cp tab f)"
  unfolding determineInlet_def Let_def
  by (intro reports_oracle_intros)

lemma determineOutlet_reports: "reports_oracle cp (determineOutlet cp tab f)"
  unfolding determineOutlet_def Let_def
  by (intro reports_oracle_intros)

lemma readInputs_reports: "reports_oracle cp (readInputs cp tab f)"
  unfolding readInputs_def split_beta
  by (intro reports_oracle_bind reports_oracle_ret determineInlet_reports
      determineOutlet_reports reports_oracle_silent fst_checkFluid fst_checkEfficiency
      fst_checkPressures)

lemma statePoints_reports: "reports_oracle cp (statePoints cp fl p1 t1 p2 eta)"
  unfolding statePoints_def inletState_def idealOutletState_def actualOutletState_def
    Let_def split_beta
  by (intro reports_oracle_intros)

lemma calculate_reports: "reports_oracle cp (calculate cp tab f)"
  unfolding calculate_def split_beta
  by (intro reports_oracle_bind reports_oracle_ret readInputs_reports statePoints_reports
      massFlow_reports)

section \<open>The handler and the page\<close>

lemma handleCalculation_fail:
  "calculate cp tab f = (qs, Inl e) \<Longrightarrow>
     handleCalculation (Some cp) tab f d =
       (qs, d \<lparr> statusBar_textContent := CalculationError e,
                statusBar_backgroundColor := ''#fff1f0'',
                statusBar_color := ''#cf1322'' \<rparr>)"
  by (simp add: handleCalculation_def)

lemma handleCalculation_fail_content:
  "snd (calculate cp tab f) = Inl e \<Longrightarrow>
     content (snd (handleCalculation (Some cp) tab f d)) = content d"
  by (cases "calculate cp tab f") (simp add: handleCalculation_def)

lemma handleCalculation_success:
  "calculate cp tab f = (qs, Inr r) \<Longrightarrow>
     handleCalculation (Some cp) tab f d = (qs, showResults tab r d)"
  by (simp add: handleCalculation_def)

lemma handleCalculation_fst:
  "fst (handleCalculation (Some cp) tab f d) = fst (calculate cp tab f)"
  by (cases "calculate cp tab f"; cases "snd (calculate cp tab f)")
     (simp_all add: handleCalculation_def)

lemma content_showResults:
  "content (showResults tab r d) = write_all (written tab r) (content d)"
  by (simp add: showResults_def)

lemma summary_fields_shown:
  "write_all (written tab r) c ''result-power'' = Some (ToFixed (js_div (power_W r) (Fin 1000)) 2)"
  "write_all (written tab r) c ''result-mass-flow'' = Some (ToFixed (massFlow_kg_s r) 3)"
  "write_all (written tab r) c ''result-volume-flow''
     = Some (ToFixed (final_inlet_volume_flow_m3h r) 2)"
  by (simp_all add: written_def)

lemma quality_cells_shown:
  "write_all (written tab r) c ''val-x1'' = Some (formatPhase tab (phase1 r) (x1 r))"
  "write_all (written tab r) c ''val-x2s'' = Some (formatPhase tab (phase2s r) (x2s r))"
  "write_all (written tab r) c ''val-x2a'' = Some (formatPhase tab (phase2a r) (x2a r))"
  by (simp_all add: written_def)

section \<open>Runs of the examples\<close>

lemmas calc_defs = calculate_def readInputs_def statePoints_def checkFluid_def determineInlet_def
  determineOutlet_def checkEfficiency_def checkPressures_def inletState_def idealOutletState_def
  actualOutletState_def massFlow_def bind_calc_def ret_def throw_def PropsSI_def
  KELVIN_OFFSET_def js_sub_def js_gt_def js_ge_def Let_def

lemma toy_run:
  "calculate toyOracle Steam (clearForm ''Water'') = (toyQueries (Fin 2545000), Inr toyResults)"
  by (simp add: calc_defs clearForm_def toyOracle_def toyQueries_def toyResults_def)

lemma toy_run_displacement:
  "calculate toyOracle Steam ((clearForm ''Water'') \<lparr> flowMode := Displacement \<rparr>)
     = (toyQueries (Fin 2545000),
        Inr (toyResults \<lparr> massFlow_kg_s := Fin 0.18, power_W := Fin 45900,
                          final_inlet_volume_flow_m3h := Fin 81 \<rparr>))"
  by (simp add: calc_defs clearForm_def toyOracle_def toyQueries_def toyResults_def)

lemma toy_run_volume:
  "calculate toyOracle Steam ((clearForm ''Water'') \<lparr> flowMode := Volume \<rparr>)
     = (toyQueries (Fin 2545000),
        Inr (toyResults \<lparr> massFlow_kg_s := Fin (2 / 9), power_W := Fin (170000 / 3),
                          final_inlet_volume_flow_m3h := Fin 100 \<rparr>))"
  by (simp add: calc_defs clearForm_def toyOracle_def toyQueries_def toyResults_def)

lemma toy_run_unit_efficiency:
  "calculate toyOracle Steam ((clearForm ''Water'') \<lparr> isentropic_efficiency := Fin 100 \<rparr>)
     = (toyQueries (Fin 2500000),
        Inr (toyResults \<lparr> eta_s := Fin 1, h2a := Fin 2500000, power_W := Fin 300000 \<rparr>))"
  by (simp add: calc_defs clearForm_def toyOracle_def toyQueries_def toyResults_def)

lemma toy_readInputs:
  "readInputs toyOracle Steam
     ((clearForm ''Water'') \<lparr> flowMode := m, mass_flow := x, rpm := n, volume_flow_rate := y \<rparr>)
     = ([], Inr (Fin 2000000, Fin 423.15, Fin 400000, Fin 0.85))"
  by (simp add: calc_defs clearForm_def toyOracle_def)

lemma toy_statePoints:
  "statePoints toyOracle ''Water'' (Fin 2000000) (Fin 423.15) (Fin 400000) (Fin 0.85)
     = (toyQueries (Fin 2545000),
        Inr ((Fin 2800000, Fin 6500, Fin 0.125, Fin 5, Fin (- 1)),
             (Fin 2500000, Fin 420, Fin 0.125, Fin 5, Fin (- 1)),
             (Fin 2545000, Fin 420, Fin 6500, Fin 0.125, Fin 3, Fin 0.95)))"
  by (simp add: calc_defs toyOracle_def toyQueries_def)

section \<open>The claims\<close>

subsection \<open>C1: the outlet pressure must be below the inlet pressure\<close>

text \<open>
  Claim C1, as amended. The check of the pressures is the last of the input checks:
  the fluid check, the resolution of both pressures and the efficiency check come
  before it. For an evaluation whose fluid belongs to the tab and whose pressures resolve
  to \<open>p1\<close> and \<open>p2\<close>: if \<open>p2 >= p1\<close> the evaluation fails and no cell is written, and
  when the efficiency is valid the error is the one that carries both pressures (outlet
  first, in bar with two decimals) and only the pressure lookups have been made; if
  \<open>p2 < p1\<close> the check passes and the evaluation never fails with that error.
\<close>

theorem C1_outlet_below_inlet:
  assumes "fluidName f \<in> set (fluidMaps_values tab)"
    and "determineInlet cp tab f = (qs1, Inr (p1, t1))"
    and "determineOutlet cp tab f = (qs2, Inr p2)"
  shows "(js_ge p2 p1 \<longrightarrow>
            (\<exists>e. snd (calculate cp tab f) = Inl e)
          \<and> content (snd (handleCalculation (Some cp) tab f d)) = content d
          \<and> (validEfficiency f \<longrightarrow>
               calculate cp tab f =
                 (qs1 @ qs2,
                  Inl (OutletNotBelowInlet (ToFixed (js_div p2 (Fin 100000)) 2)
                                           (ToFixed (js_div p1 (Fin 100000)) 2)))))
       \<and> (js_lt p2 p1 \<longrightarrow>
            checkPressures p2 p1 = ret ()
          \<and> (\<forall>a b. snd (calculate cp tab f) \<noteq> Inl (OutletNotBelowInlet a b)))"
proof (intro conjI impI)
  note inputs = readInputs_resolved [OF assms]
  {
    assume ge: "js_ge p2 p1"
    then obtain e where e: "readInputs cp tab f = (qs1 @ qs2, Inl e)"
      using inputs by (cases "validEfficiency f") simp_all
    then have c: "calculate cp tab f = (qs1 @ qs2, Inl e)"
      by (rule calculate_inputs_fail)
    then show "\<exists>e. snd (calculate cp tab f) = Inl e" by simp
    from c show "content (snd (handleCalculation (Some cp) tab f d)) = content d"
      by (simp add: handleCalculation_fail_content)
    {
      assume "validEfficiency f"
      with ge inputs show "calculate cp tab f =
                 (qs1 @ qs2,
                  Inl (OutletNotBelowInlet (ToFixed (js_div p2 (Fin 100000)) 2)
                                           (ToFixed (js_div p1 (Fin 100000)) 2)))"
        by (simp add: calculate_inputs_fail)
    }
  }
  {
    assume lt: "js_lt p2 p1"
    then have nge: "\<not> js_ge p2 p1" by (rule js_lt_not_ge)
    then show "checkPressures p2 p1 = ret ()" by (simp add: checkPressures_def)
    show "\<forall>a b. snd (calculate cp tab f) \<noteq> Inl (OutletNotBelowInlet a b)"
    proof (cases "validEfficiency f")
      case True
      with nge inputs have "readInputs cp tab f =
          (qs1 @ qs2, Inr (p1, t1, p2, js_div (isentropic_efficiency f) (Fin 100)))"
        by simp
      from calculate_after_inputs [OF this] show ?thesis
        by (auto simp: raises_only_def)
    next
      case False
      with inputs have "calculate cp tab f = (qs1 @ qs2, Inl EfficiencyOutOfRange)"
        by (simp add: calculate_inputs_fail)
      then show ?thesis by simp
    qed
  }
qed

text \<open>
  Two runs of the default form for water: with the outlet at 20 bar, the inlet pressure,
  the evaluation fails with the error that carries 20.00 and 20.00; with the outlet at
  4 bar the check passes.
\<close>

theorem C1_witness:
  "fluidName ((clearForm ''Water'') \<lparr> outlet_pressure := Fin 20 \<rparr>) \<in> set (fluidMaps_values Steam)
   \<and> determineInlet toyOracle Steam ((clearForm ''Water'') \<lparr> outlet_pressure := Fin 20 \<rparr>)
       = ([], Inr (Fin 2000000, Fin 423.15))
   \<and> determineOutlet toyOracle Steam ((clearForm ''Water'') \<lparr> outlet_pressure := Fin 20 \<rparr>)
       = ([], Inr (Fin 2000000))
   \<and> js_ge (Fin 2000000) (Fin 2000000)
   \<and> validEfficiency ((clearForm ''Water'') \<lparr> outlet_pressure := Fin 20 \<rparr>)
   \<and> calculate toyOracle Steam ((clearForm ''Water'') \<lparr> outlet_pressure := Fin 20 \<rparr>)
       = ([], Inl (OutletNotBelowInlet (ToFixed (Fin 20) 2) (ToFixed (Fin 20) 2)))
   \<and> content (snd (handleCalculation (Some toyOracle) Steam
                     ((clearForm ''Water'') \<lparr> outlet_pressure := Fin 20 \<rparr>) freshPage))
       = content freshPage
   \<and> determineOutlet toyOracle Steam (clearForm ''Water'') = ([], Inr (Fin 400000))
   \<and> js_lt (Fin 400000) (Fin 2000000)
   \<and> checkPressures (Fin 400000) (Fin 2000000) = ret ()
   \<and> (\<forall>a b. snd (calculate toyOracle Steam (clearForm ''Water''))
               \<noteq> Inl (OutletNotBelowInlet a b))"
proof -
  let ?f = "(clearForm ''Water'') \<lparr> outlet_pressure := Fin 20 \<rparr>"
  let ?g = "clearForm ''Water''"
  have a1: "fluidName ?f \<in> set (fluidMaps_values Steam)"
    by (simp add: clearForm_def)
  have a2: "determineInlet toyOracle Steam ?f = ([], Inr (Fin 2000000, Fin 423.15))"
    by (simp add: determineInlet_def clearForm_def ret_def KELVIN_OFFSET_def)
  have a3: "determineOutlet toyOracle Steam ?f = ([], Inr (Fin 2000000))"
    by (simp add: determineOutlet_def clearForm_def ret_def)
  have ge: "js_ge (Fin 2000000) (Fin 2000000)"
    by (simp add: js_ge_def)
  have ve: "validEfficiency ?f"
    by (simp add: validEfficiency_def clearForm_def)
  from C1_outlet_below_inlet [OF a1 a2 a3, of freshPage] ge ve
  have A: "calculate toyOracle Steam ?f
             = ([], Inl (OutletNotBelowInlet (ToFixed (Fin 20) 2) (ToFixed (Fin 20) 2)))
         \<and> content (snd (handleCalculation (Some toyOracle) Steam ?f freshPage))
             = content freshPage"
    by simp
  have b1: "fluidName ?g \<in> set (fluidMaps_values Steam)"
    by (simp add: clearForm_def)
  have b2: "determineInlet toyOracle Steam ?g = ([], Inr (Fin 2000000, Fin 423.15))"
    by (simp add: determineInlet_def clearForm_def ret_def KELVIN_OFFSET_def)
  have b3: "determineOutlet toyOracle Steam ?g = ([], Inr (Fin 400000))"
    by (simp add: determineOutlet_def clearForm_def ret_def)
  have lt: "js_lt (Fin 400000) (Fin 2000000)"
    by simp
  from C1_outlet_below_inlet [OF b1 b2 b3, of freshPage] lt
  have B: "checkPressures (Fin 400000) (Fin 2000000) = ret ()
         \<and> (\<forall>a b. snd (calculate toyOracle Steam ?g) \<noteq> Inl (OutletNotBelowInlet a b))"
    by blast
  from a1 a2 a3 ge ve A b3 lt B show ?thesis
    by blast
qed

text \<open>
  The claim as stated fails where the efficiency is invalid: with inlet at 4 bar, outlet
  at 20 bar and an efficiency of 0 the pressures resolve, the outlet is above the inlet,
  and the error shown is the one of the efficiency, which names no pressure.
\<close>

theorem C1_counterexample:
  "determineInlet toyOracle Steam
     ((clearForm ''Water'')
        \<lparr> inlet_pressure := Fin 4, outlet_pressure := Fin 20, isentropic_efficiency := Fin 0 \<rparr>)
     = ([], Inr (Fin 400000, Fin 423.15))
   \<and> determineOutlet toyOracle Steam
     ((clearForm ''Water'')
        \<lparr> inlet_pressure := Fin 4, outlet_pressure := Fin 20, isentropic_efficiency := Fin 0 \<rparr>)
     = ([], Inr (Fin 2000000))
   \<and> js_ge (Fin 2000000) (Fin 400000)
   \<and> handleCalculation (Some toyOracle) Steam
     ((clearForm ''Water'')
        \<lparr> inlet_pressure := Fin 4, outlet_pressure := Fin 20, isentropic_efficiency := Fin 0 \<rparr>)
     freshPage
     = ([], freshPage \<lparr> statusBar_textContent := CalculationError EfficiencyOutOfRange,
                        statusBar_backgroundColor := ''#fff1f0'',
                        statusBar_color := ''#cf1322'' \<rparr>)"
  by (simp add: handleCalculation_def calc_defs clearForm_def toyOracle_def)

subsection \<open>C2: an invalid efficiency and the calls to the property library\<close>

text \<open>
  Claim C2, as amended. An evaluation whose efficiency is not in (0, 1] after the
  division by 100 (zero, above 1, or not a number) is rejected and writes no cell. The
  calls made before the rejection are at most the two saturation-pressure lookups that
  resolve the pressures, in this order; no state-point property is asked for. When the
  inlet is given by pressure and temperature and the outlet by pressure, and always on the
  gas tab, no call is made at all.
\<close>

theorem C2_efficiency_rejected:
  assumes "\<not> validEfficiency f"
  shows "(\<exists>e. snd (calculate cp tab f) = Inl e)
       \<and> content (snd (handleCalculation (Some cp) tab f d)) = content d
       \<and> fst (handleCalculation (Some cp) tab f d)
           \<in> {[], [saturationInlet f], [saturationOutlet f],
               [saturationInlet f, saturationOutlet f]}
       \<and> (tab = Gas \<or> (inletMode f = PT \<and> outletMode f = Pressure) \<longrightarrow>
            fst (handleCalculation (Some cp) tab f d) = [])"
proof -
  obtain qs e where r: "readInputs cp tab f = (qs, Inl e)"
    using snd_readInputs_invalid [OF assms, of cp tab] by (cases "readInputs cp tab f") auto
  then have c: "calculate cp tab f = (qs, Inl e)"
    by (rule calculate_inputs_fail)
  have qs: "qs = fst (readInputs cp tab f)"
    using r by simp
  have log: "fst (handleCalculation (Some cp) tab f d) = qs"
    using c by (simp add: handleCalculation_fst)
  have "qs \<in> {[], [saturationInlet f], [saturationOutlet f],
               [saturationInlet f, saturationOutlet f]}"
    unfolding qs fst_readInputs fst_determineInlet fst_determineOutlet
    by (simp split: sum.splits)
  moreover have "tab = Gas \<or> (inletMode f = PT \<and> outletMode f = Pressure) \<Longrightarrow> qs = []"
    unfolding qs fst_readInputs fst_determineInlet fst_determineOutlet
    by (auto split: sum.splits)
  ultimately show ?thesis
    using c log by (simp add: handleCalculation_fail_content)
qed

text \<open>
  Two runs with an invalid efficiency: 0 percent on the default form (direct modes), where
  no call is made, and 120 percent with the inlet by saturation temperature and the outlet
  by condensing temperature, where the two lookups are made and nothing else.
\<close>

theorem C2_witness:
  "\<not> validEfficiency ((clearForm ''Water'') \<lparr> isentropic_efficiency := Fin 0 \<rparr>)
   \<and> inletMode ((clearForm ''Water'') \<lparr> isentropic_efficiency := Fin 0 \<rparr>) = PT
   \<and> outletMode ((clearForm ''Water'') \<lparr> isentropic_efficiency := Fin 0 \<rparr>) = Pressure
   \<and> fst (handleCalculation (Some toyOracle) Steam
            ((clearForm ''Water'') \<lparr> isentropic_efficiency := Fin 0 \<rparr>) freshPage) = []
   \<and> content (snd (handleCalculation (Some toyOracle) Steam
            ((clearForm ''Water'') \<lparr> isentropic_efficiency := Fin 0 \<rparr>) freshPage))
       = content freshPage
   \<and> \<not> validEfficiency
         ((clearForm ''R134a'')
            \<lparr> inletMode := Tsup, outletMode := Tcond, isentropic_efficiency := Fin 120 \<rparr>)
   \<and> fst (handleCalculation (Some toyOracle) Orc
            ((clearForm ''R134a'')
               \<lparr> inletMode := Tsup, outletMode := Tcond, isentropic_efficiency := Fin 120 \<rparr>)
            freshPage)
       = [(''P'', ''T'', Fin 393.15, ''Q'', Fin 1, ''R134a''),
          (''P'', ''T'', Fin 303.15, ''Q'', Fin 0, ''R134a'')]"
proof -
  let ?f = "(clearForm ''Water'') \<lparr> isentropic_efficiency := Fin 0 \<rparr>"
  let ?g = "(clearForm ''R134a'')
              \<lparr> inletMode := Tsup, outletMode := Tcond, isentropic_efficiency := Fin 120 \<rparr>"
  have a: "\<not> validEfficiency ?f"
    by (simp add: validEfficiency_def clearForm_def)
  have m: "inletMode ?f = PT \<and> outletMode ?f = Pressure"
    by (simp add: clearForm_def)
  from C2_efficiency_rejected [OF a, of toyOracle Steam freshPage] m
  have A: "fst (handleCalculation (Some toyOracle) Steam ?f freshPage) = []
         \<and> content (snd (handleCalculation (Some toyOracle) Steam ?f freshPage))
             = content freshPage"
    by blast
  have b: "\<not> validEfficiency ?g"
    by (simp add: validEfficiency_def clearForm_def)
  have B: "fst (handleCalculation (Some toyOracle) Orc ?g freshPage)
             = [(''P'', ''T'', Fin 393.15, ''Q'', Fin 1, ''R134a''),
                (''P'', ''T'', Fin 303.15, ''Q'', Fin 0, ''R134a'')]"
    by (simp add: handleCalculation_def calc_defs clearForm_def toyOracle_def)
  from a m A b B show ?thesis
    by blast
qed

text \<open>
  The claim as stated fails in the saturation-temperature/superheat inlet mode: with an
  efficiency of 0 the saturation pressure at 120 C has been asked for before the
  evaluation is rejected.
\<close>

theorem C2_counterexample:
  "\<not> validEfficiency
       ((clearForm ''R245fa'') \<lparr> inletMode := Tsup, isentropic_efficiency := Fin 0 \<rparr>)
   \<and> handleCalculation (Some toyOracle) Orc
       ((clearForm ''R245fa'') \<lparr> inletMode := Tsup, isentropic_efficiency := Fin 0 \<rparr>)
       freshPage
     = ([(''P'', ''T'', Fin 393.15, ''Q'', Fin 1, ''R245fa'')],
        freshPage \<lparr> statusBar_textContent := CalculationError EfficiencyOutOfRange,
                    statusBar_backgroundColor := ''#fff1f0'',
                    statusBar_color := ''#cf1322'' \<rparr>)"
  by (simp add: validEfficiency_def handleCalculation_def calc_defs clearForm_def
      toyOracle_def)

subsection \<open>C3: the actual outlet state\<close>

text \<open>
  Claim C3. For every evaluation that passes validation and runs to the end, the actual
  outlet enthalpy is \<open>h2a = h1 - eta * (h1 - h2s)\<close>, where \<open>h1\<close> is the answer of the
  property library for the enthalpy at the inlet pressure and temperature, \<open>h2s\<close> its
  answer at the outlet pressure and the inlet entropy, and \<open>eta\<close> the efficiency field
  divided by 100; and the actual outlet temperature, entropy, density (whose reciprocal is
  the specific volume) and phase, and the quality when the phase index is 3, are its
  answers at the outlet pressure and \<open>h2a\<close>: these are the last calls of the evaluation.
\<close>

theorem C3_actual_outlet:
  assumes "calculate cp tab f = (qs, Inr r)"
  shows "cp (''H'', ''P'', p1_pa r, ''T'', t1_k r, fluidName f) = Inr (h1 r)
       \<and> cp (''S'', ''P'', p1_pa r, ''T'', t1_k r, fluidName f) = Inr (s1 r)
       \<and> cp (''H'', ''P'', p2_pa r, ''S'', s1 r, fluidName f) = Inr (h2s r)
       \<and> eta_s r = js_div (isentropic_efficiency f) (Fin 100)
       \<and> h2a r = js_sub (h1 r) (js_mul (eta_s r) (js_sub (h1 r) (h2s r)))
       \<and> cp (''T'', ''P'', p2_pa r, ''H'', h2a r, fluidName f) = Inr (t2a_k r)
       \<and> cp (''S'', ''P'', p2_pa r, ''H'', h2a r, fluidName f) = Inr (s2a r)
       \<and> (\<exists>d. cp (''D'', ''P'', p2_pa r, ''H'', h2a r, fluidName f) = Inr d
              \<and> v2a r = js_div (Fin 1) d)
       \<and> cp (''Phase'', ''P'', p2_pa r, ''H'', h2a r, fluidName f) = Inr (phase2a r)
       \<and> (if phase2a r = Fin 3
           then cp (''Q'', ''P'', p2_pa r, ''H'', h2a r, fluidName f) = Inr (x2a r)
           else x2a r = Fin (- 1))
       \<and> (\<exists>qs'. qs = qs' @
             [(''T'', ''P'', p2_pa r, ''H'', h2a r, fluidName f),
              (''S'', ''P'', p2_pa r, ''H'', h2a r, fluidName f),
              (''D'', ''P'', p2_pa r, ''H'', h2a r, fluidName f),
              (''Phase'', ''P'', p2_pa r, ''H'', h2a r, fluidName f)]
             @ (if phase2a r = Fin 3
                then [(''Q'', ''P'', p2_pa r, ''H'', h2a r, fluidName f)] else []))"
proof -
  from calculate_Inr [OF assms] obtain qs1 qs2 qs3 where
    inp: "readInputs cp tab f = (qs1, Inr (p1_pa r, t1_k r, p2_pa r, eta_s r))" and
    sp: "statePoints cp (fluidName f) (p1_pa r) (t1_k r) (p2_pa r) (eta_s r)
             = (qs2, Inr ((h1 r, s1 r, v1 r, phase1 r, x1 r),
                          (h2s r, t2s_k r, v2s r, phase2s r, x2s r),
                          (h2a r, t2a_k r, s2a r, v2a r, phase2a r, x2a r)))" and
    mf: "massFlow f (v1 r) = (qs3, Inr (massFlow_kg_s r))" and
    qs: "qs = qs1 @ qs2 @ qs3"
    by blast
  from statePoints_Inr [OF sp] obtain q1 q2 q3 where
    i: "inletState cp (fluidName f) (p1_pa r) (t1_k r)
          = (q1, Inr (h1 r, s1 r, v1 r, phase1 r, x1 r))" and
    o: "idealOutletState cp (fluidName f) (p2_pa r) (s1 r)
          = (q2, Inr (h2s r, t2s_k r, v2s r, phase2s r, x2s r))" and
    a: "actualOutletState cp (fluidName f) (p2_pa r) (h1 r) (h2s r) (eta_s r)
          = (q3, Inr (h2a r, t2a_k r, s2a r, v2a r, phase2a r, x2a r))" and
    qs2: "qs2 = q1 @ q2 @ q3"
    by blast
  note eta = readInputs_efficiency [OF inp]
  have qs3: "qs3 = []"
    using mf fst_massFlow [of f "v1 r"] by simp
  note A = actualOutletState_Inr [OF a]
  have "qs = (qs1 @ q1 @ q2) @ q3"
    using qs qs2 qs3 by simp
  with A(7) have log: "\<exists>qs'. qs = qs' @
             [(''T'', ''P'', p2_pa r, ''H'', h2a r, fluidName f),
              (''S'', ''P'', p2_pa r, ''H'', h2a r, fluidName f),
              (''D'', ''P'', p2_pa r, ''H'', h2a r, fluidName f),
              (''Phase'', ''P'', p2_pa r, ''H'', h2a r, fluidName f)]
             @ (if phase2a r = Fin 3
                then [(''Q'', ''P'', p2_pa r, ''H'', h2a r, fluidName f)] else [])"
    by blast
  have h2a: "h2a r = js_sub (h1 r) (js_mul (eta_s r) (js_sub (h1 r) (h2s r)))"
    using A(1) by (simp add: js_mul_commute)
  show ?thesis
    using inletState_Inr(1,2) [OF i] idealOutletState_Inr(1) [OF o] eta h2a A(2-6) log
    by simp
qed

text \<open>
  The default form for water (20 bar, 150 C, 4 bar, 85 percent): with inlet enthalpy
  2800 kJ/kg and isentropic outlet enthalpy 2500 kJ/kg the actual outlet enthalpy is
  2545 kJ/kg, and the outlet temperature is the answer at 4 bar and that enthalpy.
\<close>

theorem C3_witness:
  "calculate toyOracle Steam (clearForm ''Water'') = (toyQueries (Fin 2545000), Inr toyResults)
   \<and> h2a toyResults = Fin 2545000
   \<and> js_sub (h1 toyResults) (js_mul (eta_s toyResults) (js_sub (h1 toyResults) (h2s toyResults)))
       = Fin 2545000
   \<and> toyOracle (''T'', ''P'', Fin 400000, ''H'', Fin 2545000, ''Water'') = Inr (t2a_k toyResults)"
  using toy_run C3_actual_outlet [OF toy_run]
  by (simp add: toyResults_def clearForm_def js_sub_def toyOracle_def)

subsection \<open>C4: power and inlet volume flow\<close>

text \<open>
  Claim C4. For every successful evaluation, whatever the flow mode, the shaft power is
  the mass flow times the actual enthalpy drop \<open>h1 - h2a\<close> and the inlet volume flow is
  the mass flow times the inlet specific volume. The page shows the power in kW (the
  value in W divided by 1000) and the volume flow in m3/h (the value in m3/s times 3600,
  which the code computes in one product), both with two decimals, and the mass flow
  with three.
\<close>

theorem C4_power_and_volume_flow:
  assumes "calculate cp tab f = (qs, Inr r)"
  shows "power_W r = js_mul (massFlow_kg_s r) (js_sub (h1 r) (h2a r))
       \<and> final_inlet_volume_flow_m3h r = js_mul (js_mul (massFlow_kg_s r) (v1 r)) (Fin 3600)
       \<and> content (snd (handleCalculation (Some cp) tab f d)) ''result-power''
           = Some (ToFixed (js_div (power_W r) (Fin 1000)) 2)
       \<and> content (snd (handleCalculation (Some cp) tab f d)) ''result-mass-flow''
           = Some (ToFixed (massFlow_kg_s r) 3)
       \<and> content (snd (handleCalculation (Some cp) tab f d)) ''result-volume-flow''
           = Some (ToFixed (final_inlet_volume_flow_m3h r) 2)"
  using calculate_Inr [OF assms]
  by (auto simp: handleCalculation_success [OF assms] content_showResults summary_fields_shown)

text \<open>
  The three flow modes on the default form for water, where the enthalpy drop is
  255 kJ/kg and the inlet specific volume 0.125 m3/kg: 1 kg/s gives 255 kW and 450 m3/h;
  the displacement mode gives 0.18 kg/s, 45.9 kW and 81 m3/h; 100 m3/h gives 2/9 kg/s and
  100 m3/h.
\<close>

theorem C4_witness:
  "calculate toyOracle Steam (clearForm ''Water'') = (toyQueries (Fin 2545000), Inr toyResults)
   \<and> content (snd (handleCalculation (Some toyOracle) Steam (clearForm ''Water'') freshPage))
       ''result-power'' = Some (ToFixed (Fin 255) 2)
   \<and> content (snd (handleCalculation (Some toyOracle) Steam (clearForm ''Water'') freshPage))
       ''result-volume-flow'' = Some (ToFixed (Fin 450) 2)
   \<and> content (snd (handleCalculation (Some toyOracle) Steam
                     ((clearForm ''Water'') \<lparr> flowMode := Displacement \<rparr>) freshPage))
       ''result-power'' = Some (ToFixed (Fin 45.9) 2)
   \<and> content (snd (handleCalculation (Some toyOracle) Steam
                     ((clearForm ''Water'') \<lparr> flowMode := Displacement \<rparr>) freshPage))
       ''result-volume-flow'' = Some (ToFixed (Fin 81) 2)
   \<and> content (snd (handleCalculation (Some toyOracle) Steam
                     ((clearForm ''Water'') \<lparr> flowMode := Volume \<rparr>) freshPage))
       ''result-mass-flow'' = Some (ToFixed (Fin (2 / 9)) 3)
   \<and> content (snd (handleCalculation (Some toyOracle) Steam
                     ((clearForm ''Water'') \<lparr> flowMode := Volume \<rparr>) freshPage))
       ''result-volume-flow'' = Some (ToFixed (Fin 100) 2)"
  using toy_run
    C4_power_and_volume_flow [OF toy_run, of freshPage]
    C4_power_and_volume_flow [OF toy_run_displacement, of freshPage]
    C4_power_and_volume_flow [OF toy_run_volume, of freshPage]
  by (simp add: toyResults_def)

subsection \<open>C5: the mass flow from a displacement or a volume flow\<close>

text \<open>
  Claim C5. For every successful evaluation the inlet specific volume \<open>v1\<close> is the
  reciprocal of the density at the inlet. In displacement mode the mass flow is
  \<open>((Vg / 1e6 * rpm) / 60 * eta_v) / v1\<close> with \<open>Vg\<close> in cm3 and \<open>eta_v\<close> the volumetric
  efficiency field divided by 100; in volume-flow mode it is \<open>(flow / 3600) / v1\<close>. For
  500 cm3, 3000 rpm and 90 percent it is \<open>(500e-6 * 3000 / 60 * 0.90) / v1\<close>.
\<close>

theorem C5_mass_flow:
  assumes "calculate cp tab f = (qs, Inr r)"
  shows "(\<exists>d. cp (''D'', ''P'', p1_pa r, ''T'', t1_k r, fluidName f) = Inr d
              \<and> v1 r = js_div (Fin 1) d)
       \<and> (flowMode f = Displacement \<longrightarrow>
            massFlow_kg_s r =
              js_div (js_mul (js_div (js_mul (js_div (displacement f) (Fin 1000000)) (rpm f))
                                     (Fin 60))
                             (js_div (volumetric_efficiency f) (Fin 100)))
                     (v1 r))
       \<and> (flowMode f = Volume \<longrightarrow>
            massFlow_kg_s r = js_div (js_div (volume_flow_rate f) (Fin 3600)) (v1 r))
       \<and> (flowMode f = Displacement \<and> displacement f = Fin 500 \<and> rpm f = Fin 3000
            \<and> volumetric_efficiency f = Fin 90 \<longrightarrow>
            massFlow_kg_s r = js_div (Fin (500 / 10 ^ 6 * 3000 / 60 * 0.90)) (v1 r))"
proof -
  from calculate_Inr [OF assms] obtain qs1 qs2 qs3 where
    sp: "statePoints cp (fluidName f) (p1_pa r) (t1_k r) (p2_pa r) (eta_s r)
             = (qs2, Inr ((h1 r, s1 r, v1 r, phase1 r, x1 r),
                          (h2s r, t2s_k r, v2s r, phase2s r, x2s r),
                          (h2a r, t2a_k r, s2a r, v2a r, phase2a r, x2a r)))" and
    mf: "massFlow f (v1 r) = (qs3, Inr (massFlow_kg_s r))"
    by blast
  from statePoints_Inr [OF sp] obtain q1 where
    i: "inletState cp (fluidName f) (p1_pa r) (t1_k r)
          = (q1, Inr (h1 r, s1 r, v1 r, phase1 r, x1 r))"
    by blast
  have d: "flowMode f = Displacement \<Longrightarrow>
            massFlow_kg_s r =
              js_div (js_mul (js_div (js_mul (js_div (displacement f) (Fin 1000000)) (rpm f))
                                     (Fin 60))
                             (js_div (volumetric_efficiency f) (Fin 100)))
                     (v1 r)"
    using mf by (auto simp: massFlow_def Let_def Inr_iffs split: if_splits)
  have v: "flowMode f = Volume \<Longrightarrow>
            massFlow_kg_s r = js_div (js_div (volume_flow_rate f) (Fin 3600)) (v1 r)"
    using mf by (auto simp: massFlow_def Let_def Inr_iffs split: if_splits)
  have "flowMode f = Displacement \<Longrightarrow> displacement f = Fin 500 \<Longrightarrow> rpm f = Fin 3000
            \<Longrightarrow> volumetric_efficiency f = Fin 90 \<Longrightarrow>
            massFlow_kg_s r = js_div (Fin (500 / 10 ^ 6 * 3000 / 60 * 0.90)) (v1 r)"
    using d by simp
  with d v inletState_Inr(3) [OF i] show ?thesis by blast
qed

text \<open>
  The scenario on the default form for water, where \<open>v1\<close> is 0.125 m3/kg: displacement
  mode gives \<open>0.0225 / 0.125 = 0.18\<close> kg/s, and 100 m3/h gives \<open>(100 / 3600) / 0.125\<close>.
\<close>

theorem C5_witness:
  "calculate toyOracle Steam ((clearForm ''Water'') \<lparr> flowMode := Displacement \<rparr>)
     = (toyQueries (Fin 2545000),
        Inr (toyResults \<lparr> massFlow_kg_s := Fin 0.18, power_W := Fin 45900,
                          final_inlet_volume_flow_m3h := Fin 81 \<rparr>))
   \<and> flowMode ((clearForm ''Water'') \<lparr> flowMode := Displacement \<rparr>) = Displacement
   \<and> displacement ((clearForm ''Water'') \<lparr> flowMode := Displacement \<rparr>) = Fin 500
   \<and> rpm ((clearForm ''Water'') \<lparr> flowMode := Displacement \<rparr>) = Fin 3000
   \<and> volumetric_efficiency ((clearForm ''Water'') \<lparr> flowMode := Displacement \<rparr>) = Fin 90
   \<and> js_div (Fin (500 / 10 ^ 6 * 3000 / 60 * 0.90)) (Fin 0.125) = Fin 0.18
   \<and> calculate toyOracle Steam ((clearForm ''Water'') \<lparr> flowMode := Volume \<rparr>)
     = (toyQueries (Fin 2545000),
        Inr (toyResults \<lparr> massFlow_kg_s := Fin (2 / 9), power_W := Fin (170000 / 3),
                          final_inlet_volume_flow_m3h := Fin 100 \<rparr>))
   \<and> flowMode ((clearForm ''Water'') \<lparr> flowMode := Volume \<rparr>) = Volume
   \<and> js_div (js_div (Fin 100) (Fin 3600)) (Fin 0.125) = Fin (2 / 9)"
  using toy_run_displacement toy_run_volume
    C5_mass_flow [OF toy_run_displacement] C5_mass_flow [OF toy_run_volume]
  by (simp add: toyResults_def clearForm_def)

subsection \<open>C6: the flow inputs must be positive\<close>

text \<open>
  Claim C6, as amended. The flow inputs are read and checked after the state points. A
  zero or negative numeric input of the selected flow mode makes the flow step throw
  its error (for the mass flow and for the volume flow the error that names the field;
  in displacement mode the error that names displacement, speed and volumetric efficiency
  together, or the invalid-input error when one of the three is not a number), so the
  evaluation never succeeds and no cell is written. When the inputs and the state points
  are computed without error, this is the error of the evaluation.
\<close>

theorem C6_flow_inputs_positive:
  assumes "nonPositiveFlowInput f"
  shows "(\<exists>e. snd (calculate cp tab f) = Inl e)
       \<and> content (snd (handleCalculation (Some cp) tab f d)) = content d
       \<and> massFlow f v = ([], Inl (flowError f))
       \<and> (readInputs cp tab f = (qs1, Inr (p1, t1, p2, eta))
            \<and> statePoints cp (fluidName f) p1 t1 p2 eta = (qs2, Inr sp) \<longrightarrow>
          calculate cp tab f = (qs1 @ qs2, Inl (flowError f)))"
proof -
  note mf = massFlow_nonPositive [OF assms]
  have fail: "\<exists>e. snd (calculate cp tab f) = Inl e"
    by (auto simp: calculate_def snd_bind_calc mf split: sum.splits prod.splits)
  then obtain e where "snd (calculate cp tab f) = Inl e" ..
  then have "content (snd (handleCalculation (Some cp) tab f d)) = content d"
    by (rule handleCalculation_fail_content)
  moreover have "calculate cp tab f = (qs1 @ qs2, Inl (flowError f))"
    if "readInputs cp tab f = (qs1, Inr (p1, t1, p2, eta))"
      and "statePoints cp (fluidName f) p1 t1 p2 eta = (qs2, Inr sp)"
    using calculate_flow_fail [OF that mf] by simp
  ultimately show ?thesis
    using fail mf by blast
qed

text \<open>
  The default form for water with a mass flow of 0, and in displacement mode with a
  speed of -1: the inputs are read, the thirteen calls of the state points are made (the quality
  is asked for at the actual outlet only), and
  the evaluation fails with the error of the flow mode.
\<close>

theorem C6_witness:
  "nonPositiveFlowInput
     ((clearForm ''Water'')
        \<lparr> flowMode := Mass, mass_flow := Fin 0, rpm := Fin 3000, volume_flow_rate := Fin 100 \<rparr>)
   \<and> readInputs toyOracle Steam
       ((clearForm ''Water'')
          \<lparr> flowMode := Mass, mass_flow := Fin 0, rpm := Fin 3000, volume_flow_rate := Fin 100 \<rparr>)
     = ([], Inr (Fin 2000000, Fin 423.15, Fin 400000, Fin 0.85))
   \<and> statePoints toyOracle ''Water'' (Fin 2000000) (Fin 423.15) (Fin 400000) (Fin 0.85)
     = (toyQueries (Fin 2545000),
        Inr ((Fin 2800000, Fin 6500, Fin 0.125, Fin 5, Fin (- 1)),
             (Fin 2500000, Fin 420, Fin 0.125, Fin 5, Fin (- 1)),
             (Fin 2545000, Fin 420, Fin 6500, Fin 0.125, Fin 3, Fin 0.95)))
   \<and> calculate toyOracle Steam
       ((clearForm ''Water'')
          \<lparr> flowMode := Mass, mass_flow := Fin 0, rpm := Fin 3000, volume_flow_rate := Fin 100 \<rparr>)
     = (toyQueries (Fin 2545000), Inl MassFlowNotPositive)
   \<and> nonPositiveFlowInput
     ((clearForm ''Water'')
        \<lparr> flowMode := Displacement, mass_flow := Fin 1, rpm := Fin (- 1),
          volume_flow_rate := Fin 100 \<rparr>)
   \<and> calculate toyOracle Steam
       ((clearForm ''Water'')
          \<lparr> flowMode := Displacement, mass_flow := Fin 1, rpm := Fin (- 1),
            volume_flow_rate := Fin 100 \<rparr>)
     = (toyQueries (Fin 2545000), Inl DisplacementNotPositive)
   \<and> nonPositiveFlowInput
     ((clearForm ''Water'')
        \<lparr> flowMode := Volume, mass_flow := Fin 1, rpm := Fin 3000, volume_flow_rate := Fin 0 \<rparr>)
   \<and> calculate toyOracle Steam
       ((clearForm ''Water'')
          \<lparr> flowMode := Volume, mass_flow := Fin 1, rpm := Fin 3000, volume_flow_rate := Fin 0 \<rparr>)
     = (toyQueries (Fin 2545000), Inl VolumeFlowNotPositive)"
proof -
  let ?f = "(clearForm ''Water'')
        \<lparr> flowMode := Mass, mass_flow := Fin 0, rpm := Fin 3000, volume_flow_rate := Fin 100 \<rparr>"
  let ?g = "(clearForm ''Water'')
        \<lparr> flowMode := Displacement, mass_flow := Fin 1, rpm := Fin (- 1),
          volume_flow_rate := Fin 100 \<rparr>"
  let ?h = "(clearForm ''Water'')
        \<lparr> flowMode := Volume, mass_flow := Fin 1, rpm := Fin 3000, volume_flow_rate := Fin 0 \<rparr>"
  have a: "nonPositiveFlowInput ?f"
    by (simp add: nonPositiveFlowInput_def clearForm_def)
  have b: "nonPositiveFlowInput ?g"
    by (simp add: nonPositiveFlowInput_def clearForm_def)
  have c: "nonPositiveFlowInput ?h"
    by (simp add: nonPositiveFlowInput_def clearForm_def)
  have sp: "statePoints toyOracle (fluidName F) (Fin 2000000) (Fin 423.15) (Fin 400000)
              (Fin 0.85)
     = (toyQueries (Fin 2545000),
        Inr ((Fin 2800000, Fin 6500, Fin 0.125, Fin 5, Fin (- 1)),
             (Fin 2500000, Fin 420, Fin 0.125, Fin 5, Fin (- 1)),
             (Fin 2545000, Fin 420, Fin 6500, Fin 0.125, Fin 3, Fin 0.95)))"
    if "fluidName F = ''Water''" for F
    using toy_statePoints that by simp
  have A: "calculate toyOracle Steam ?f = (toyQueries (Fin 2545000), Inl MassFlowNotPositive)"
    using C6_flow_inputs_positive [OF a, where cp = toyOracle and tab = Steam
        and ?qs1.0 = "[]" and ?p1.0 = "Fin 2000000" and ?t1.0 = "Fin 423.15"
        and ?p2.0 = "Fin 400000" and eta = "Fin 0.85"]
      toy_readInputs [where m = Mass and x = "Fin 0" and n = "Fin 3000" and y = "Fin 100"] sp [of ?f]
    by (simp add: flowError_def clearForm_def)
  have B: "calculate toyOracle Steam ?g
             = (toyQueries (Fin 2545000), Inl DisplacementNotPositive)"
    using C6_flow_inputs_positive [OF b, where cp = toyOracle and tab = Steam
        and ?qs1.0 = "[]" and ?p1.0 = "Fin 2000000" and ?t1.0 = "Fin 423.15"
        and ?p2.0 = "Fin 400000" and eta = "Fin 0.85"]
      toy_readInputs [where m = Displacement and x = "Fin 1" and n = "Fin (- 1)" and y = "Fin 100"] sp [of ?g]
    by (simp add: flowError_def clearForm_def)
  have C: "calculate toyOracle Steam ?h
             = (toyQueries (Fin 2545000), Inl VolumeFlowNotPositive)"
    using C6_flow_inputs_positive [OF c, where cp = toyOracle and tab = Steam
        and ?qs1.0 = "[]" and ?p1.0 = "Fin 2000000" and ?t1.0 = "Fin 423.15"
        and ?p2.0 = "Fin 400000" and eta = "Fin 0.85"]
      toy_readInputs [where m = Volume and x = "Fin 1" and n = "Fin 3000" and y = "Fin 0"] sp [of ?h]
    by (simp add: flowError_def clearForm_def)
  from a b c A B C toy_statePoints
    toy_readInputs [where m = Mass and x = "Fin 0" and n = "Fin 3000" and y = "Fin 100"]
  show ?thesis
    by blast
qed

text \<open>
  The claim as stated fails when an earlier step fails: with a mass flow of 0 as the only
  offending input and a property library that throws on the first call, the error shown
  is the one of the library, which does not name the mass flow.
\<close>

theorem C6_counterexample:
  "nonPositiveFlowInput ((clearForm ''Water'') \<lparr> mass_flow := Fin 0 \<rparr>)
   \<and> validEfficiency ((clearForm ''Water'') \<lparr> mass_flow := Fin 0 \<rparr>)
   \<and> handleCalculation (Some brokenOracle) Steam
       ((clearForm ''Water'') \<lparr> mass_flow := Fin 0 \<rparr>) freshPage
     = ([(''H'', ''P'', Fin 2000000, ''T'', Fin 423.15, ''Water'')],
        freshPage
          \<lparr> statusBar_textContent := CalculationError (OracleFailure ''inputs out of range''),
            statusBar_backgroundColor := ''#fff1f0'',
            statusBar_color := ''#cf1322'' \<rparr>)"
  by (simp add: nonPositiveFlowInput_def validEfficiency_def handleCalculation_def calc_defs
      clearForm_def brokenOracle_def)

subsection \<open>C7: unit efficiency\<close>

text \<open>
  Claim C7, as amended. At an efficiency of 100 percent, for every evaluation that
  succeeds, the efficiency fraction is 1, the actual outlet enthalpy is the value of
  \<open>h1 - (h1 - h2s) * 1\<close> as the code computes it, and the actual outlet temperature and
  entropy are the answers of the property library at the outlet pressure and that
  enthalpy. Whenever the computed enthalpy is the isentropic one and the library is
  consistent at this state (it gives the same temperature for the state given by that
  enthalpy as for the state given by the inlet entropy, and the inlet entropy as the
  entropy of the state given by that enthalpy), the actual outlet temperature and entropy
  are the isentropic outlet temperature and the inlet entropy. Neither condition follows
  from the library being a function of the arguments of the call: the computed enthalpy
  need not be the isentropic one, and the answers for a state given by enthalpy need not
  agree with those for a state given by entropy.
\<close>

theorem C7_unit_efficiency:
  assumes "calculate cp tab f = (qs, Inr r)"
    and "isentropic_efficiency f = Fin 100"
  shows "eta_s r = Fin 1
       \<and> h2a r = js_sub (h1 r) (js_mul (js_sub (h1 r) (h2s r)) (Fin 1))
       \<and> cp (''T'', ''P'', p2_pa r, ''H'', h2a r, fluidName f) = Inr (t2a_k r)
       \<and> cp (''S'', ''P'', p2_pa r, ''H'', h2a r, fluidName f) = Inr (s2a r)
       \<and> cp (''T'', ''P'', p2_pa r, ''S'', s1 r, fluidName f) = Inr (t2s_k r)
       \<and> (h2a r = h2s r
            \<and> cp (''T'', ''P'', p2_pa r, ''H'', h2s r, fluidName f)
                = cp (''T'', ''P'', p2_pa r, ''S'', s1 r, fluidName f) \<longrightarrow>
            t2a_k r = t2s_k r)
       \<and> (h2a r = h2s r
            \<and> cp (''S'', ''P'', p2_pa r, ''H'', h2s r, fluidName f) = Inr (s1 r) \<longrightarrow>
            s2a r = s1 r)"
proof -
  from calculate_Inr [OF assms(1)] obtain qs1 qs2 where
    inp: "readInputs cp tab f = (qs1, Inr (p1_pa r, t1_k r, p2_pa r, eta_s r))" and
    sp: "statePoints cp (fluidName f) (p1_pa r) (t1_k r) (p2_pa r) (eta_s r)
             = (qs2, Inr ((h1 r, s1 r, v1 r, phase1 r, x1 r),
                          (h2s r, t2s_k r, v2s r, phase2s r, x2s r),
                          (h2a r, t2a_k r, s2a r, v2a r, phase2a r, x2a r)))"
    by blast
  from statePoints_Inr [OF sp] obtain q2 q3 where
    o: "idealOutletState cp (fluidName f) (p2_pa r) (s1 r)
          = (q2, Inr (h2s r, t2s_k r, v2s r, phase2s r, x2s r))" and
    a: "actualOutletState cp (fluidName f) (p2_pa r) (h1 r) (h2s r) (eta_s r)
          = (q3, Inr (h2a r, t2a_k r, s2a r, v2a r, phase2a r, x2a r))"
    by blast
  have eta: "eta_s r = Fin 1"
    using readInputs_efficiency [OF inp] by (simp add: assms(2))
  note A = actualOutletState_Inr [OF a]
  have h: "h2a r = js_sub (h1 r) (js_mul (js_sub (h1 r) (h2s r)) (Fin 1))"
    using A(1) by (simp add: eta)
  note t2s = idealOutletState_Inr(2) [OF o]
  have t: "t2a_k r = t2s_k r"
    if "h2a r = h2s r"
      and "cp (''T'', ''P'', p2_pa r, ''H'', h2s r, fluidName f)
             = cp (''T'', ''P'', p2_pa r, ''S'', s1 r, fluidName f)"
    using that A(2) t2s by simp
  have s: "s2a r = s1 r"
    if "h2a r = h2s r"
      and "cp (''S'', ''P'', p2_pa r, ''H'', h2s r, fluidName f) = Inr (s1 r)"
    using that A(3) by simp
  from eta h A(2,3) t2s t s show ?thesis
    by blast
qed

text \<open>
  The default form for water at 100 percent with the consistent library: the computed
  actual outlet enthalpy, 2800000 - (2800000 - 2500000) * 1, is the isentropic
  2500 kJ/kg, and the temperature 420 K and the entropy 6.5 kJ/kg/K are those of the
  isentropic outlet and of the inlet.
\<close>

theorem C7_witness:
  "calculate toyOracle Steam ((clearForm ''Water'') \<lparr> isentropic_efficiency := Fin 100 \<rparr>)
     = (toyQueries (Fin 2500000),
        Inr (toyResults \<lparr> eta_s := Fin 1, h2a := Fin 2500000, power_W := Fin 300000 \<rparr>))
   \<and> isentropic_efficiency ((clearForm ''Water'') \<lparr> isentropic_efficiency := Fin 100 \<rparr>)
       = Fin 100
   \<and> js_sub (Fin 2800000) (js_mul (js_sub (Fin 2800000) (Fin 2500000)) (Fin 1)) = Fin 2500000
   \<and> toyOracle (''T'', ''P'', Fin 400000, ''H'', Fin 2500000, ''Water'')
       = toyOracle (''T'', ''P'', Fin 400000, ''S'', Fin 6500, ''Water'')
   \<and> toyOracle (''S'', ''P'', Fin 400000, ''H'', Fin 2500000, ''Water'') = Inr (Fin 6500)
   \<and> h2a (toyResults \<lparr> eta_s := Fin 1, h2a := Fin 2500000, power_W := Fin 300000 \<rparr>)
       = h2s toyResults
   \<and> t2a_k (toyResults \<lparr> eta_s := Fin 1, h2a := Fin 2500000, power_W := Fin 300000 \<rparr>)
       = t2s_k toyResults
   \<and> s2a (toyResults \<lparr> eta_s := Fin 1, h2a := Fin 2500000, power_W := Fin 300000 \<rparr>)
       = s1 toyResults"
  using toy_run_unit_efficiency
    C7_unit_efficiency [OF toy_run_unit_efficiency]
  by (simp add: toyResults_def clearForm_def toyOracle_def js_sub_def)

text \<open>
  The claim as stated fails in two ways at 100 percent on the default form for water.
  With a property library that is a function of its arguments but answers 430 K and
  6.6 kJ/kg/K for the state given by enthalpy, the actual outlet enthalpy is the
  isentropic one, but the actual outlet temperature is 430 K against an isentropic
  420 K, and the actual outlet entropy 6.6 against an inlet entropy of 6.5 kJ/kg/K. With
  a library that answers \<^verbatim>\<open>Infinity\<close> for the inlet enthalpy, the evaluation succeeds and
  the actual outlet enthalpy, \<^verbatim>\<open>Infinity - (Infinity - 2500000) * 1\<close>, is \<^verbatim>\<open>NaN\<close>, not the
  isentropic 2500 kJ/kg.
\<close>

theorem C7_counterexample:
  "calculate skewedOracle Steam ((clearForm ''Water'') \<lparr> isentropic_efficiency := Fin 100 \<rparr>)
     = (toyQueries (Fin 2500000),
        Inr \<lparr> p1_pa = Fin 2000000, t1_k = Fin 423.15, p2_pa = Fin 400000, eta_s = Fin 1,
              h1 = Fin 2800000, s1 = Fin 6500, v1 = Fin 0.125, phase1 = Fin 5,
              x1 = Fin (- 1),
              s2s = Fin 6500, h2s = Fin 2500000, t2s_k = Fin 420, v2s = Fin 0.125,
              phase2s = Fin 5, x2s = Fin (- 1),
              h2a = Fin 2500000, t2a_k = Fin 430, s2a = Fin 6600, v2a = Fin 0.125,
              phase2a = Fin 3, x2a = Fin 0.95,
              massFlow_kg_s = Fin 1, power_W = Fin 300000,
              final_inlet_volume_flow_m3h = Fin 450 \<rparr>)
   \<and> Fin 430 \<noteq> Fin 420 \<and> Fin 6600 \<noteq> Fin 6500
   \<and> calculate unboundedOracle Steam
         ((clearForm ''Water'') \<lparr> isentropic_efficiency := Fin 100 \<rparr>)
     = (toyQueries NaN,
        Inr \<lparr> p1_pa = Fin 2000000, t1_k = Fin 423.15, p2_pa = Fin 400000, eta_s = Fin 1,
              h1 = PInf, s1 = Fin 6500, v1 = Fin 0.125, phase1 = Fin 5,
              x1 = Fin (- 1),
              s2s = Fin 6500, h2s = Fin 2500000, t2s_k = Fin 420, v2s = Fin 0.125,
              phase2s = Fin 5, x2s = Fin (- 1),
              h2a = NaN, t2a_k = Fin 420, s2a = Fin 6500, v2a = Fin 0.125,
              phase2a = Fin 3, x2a = Fin 0.95,
              massFlow_kg_s = Fin 1, power_W = NaN,
              final_inlet_volume_flow_m3h = Fin 450 \<rparr>)
   \<and> NaN \<noteq> Fin 2500000"
  by (simp add: calc_defs clearForm_def skewedOracle_def unboundedOracle_def toyOracle_def
      toyQueries_def)

subsection \<open>C8: phase label and quality\<close>

text \<open>
  Claim C8, as amended. A state-point cell shows a number (the quality, with four
  decimals) only when the phase index is 3, two-phase, and the tab is not the gas tab;
  for any other phase index it shows a label. On the ORC and steam tabs, a two-phase
  quality within \<open>1e-9\<close> of 0 is shown as the saturated-liquid label and one within
  \<open>1e-9\<close> of 1 as the saturated-vapour label. On the gas tab the cell shows \<^verbatim>\<open>N/A\<close>
  whatever the phase and the quality. The three quality cells of a successful evaluation
  are filled this way.
\<close>

theorem C8_phase_and_quality:
  "(formatPhase tab ph q = ToFixed x n \<longrightarrow> tab \<noteq> Gas \<and> ph = Fin 3 \<and> x = q \<and> n = 4)
 \<and> (ph \<noteq> Fin 3 \<longrightarrow> (\<exists>l. formatPhase tab ph q = Label l))
 \<and> (tab \<noteq> Gas \<and> \<bar>a\<bar> < 1 / 10 ^ 9 \<longrightarrow>
       formatPhase tab (Fin 3) (Fin a) = Label SaturatedLiquid)
 \<and> (tab \<noteq> Gas \<and> \<bar>a - 1\<bar> < 1 / 10 ^ 9 \<longrightarrow>
       formatPhase tab (Fin 3) (Fin a) = Label SaturatedVapour)
 \<and> formatPhase Gas ph q = Label NotApplicable
 \<and> (calculate cp tab f = (qs, Inr r) \<longrightarrow>
       content (snd (handleCalculation (Some cp) tab f d)) ''val-x1''
         = Some (formatPhase tab (phase1 r) (x1 r))
     \<and> content (snd (handleCalculation (Some cp) tab f d)) ''val-x2s''
         = Some (formatPhase tab (phase2s r) (x2s r))
     \<and> content (snd (handleCalculation (Some cp) tab f d)) ''val-x2a''
         = Some (formatPhase tab (phase2a r) (x2a r)))"
proof -
  have cells: "content (snd (handleCalculation (Some cp) tab f d)) i
                 = write_all (written tab r) (content d) i"
    if "calculate cp tab f = (qs, Inr r)" for i
    by (simp add: handleCalculation_success [OF that] content_showResults)
  have "formatPhase tab ph q = ToFixed x n \<Longrightarrow> tab \<noteq> Gas \<and> ph = Fin 3 \<and> x = q \<and> n = 4"
    by (auto simp: formatPhase_def split: if_splits)
  moreover have "ph \<noteq> Fin 3 \<Longrightarrow> \<exists>l. formatPhase tab ph q = Label l"
    by (simp add: formatPhase_def)
  moreover have "tab \<noteq> Gas \<Longrightarrow> \<bar>a\<bar> < 1 / 10 ^ 9 \<Longrightarrow>
       formatPhase tab (Fin 3) (Fin a) = Label SaturatedLiquid"
    by (simp add: formatPhase_def js_gt_def abs_less_iff) linarith
  moreover have "tab \<noteq> Gas \<Longrightarrow> \<bar>a - 1\<bar> < 1 / 10 ^ 9 \<Longrightarrow>
       formatPhase tab (Fin 3) (Fin a) = Label SaturatedVapour"
    by (auto simp: formatPhase_def js_gt_def abs_less_iff)
  moreover have "formatPhase Gas ph q = Label NotApplicable"
    by (simp add: formatPhase_def)
  ultimately show ?thesis
    by (simp add: cells quality_cells_shown)
qed

text \<open>
  On the steam tab: a two-phase quality of 0.95 is shown as a number, a superheated
  point has a label, a quality of 0 is saturated liquid and a quality of 1 saturated
  vapour; and the actual outlet of the default run, two-phase at 0.95, shows 0.9500.
\<close>

theorem C8_witness:
  "formatPhase Steam (Fin 3) (Fin 0.95) = ToFixed (Fin 0.95) 4
   \<and> Fin 5 \<noteq> Fin 3
   \<and> formatPhase Steam (Fin 5) (Fin (- 1)) = Label Superheated
   \<and> Steam \<noteq> Gas \<and> \<bar>0 :: real\<bar> < 1 / 10 ^ 9
   \<and> formatPhase Steam (Fin 3) (Fin 0) = Label SaturatedLiquid
   \<and> \<bar>1 - 1 :: real\<bar> < 1 / 10 ^ 9
   \<and> formatPhase Steam (Fin 3) (Fin 1) = Label SaturatedVapour
   \<and> calculate toyOracle Steam (clearForm ''Water'') = (toyQueries (Fin 2545000), Inr toyResults)
   \<and> content (snd (handleCalculation (Some toyOracle) Steam (clearForm ''Water'') freshPage))
       ''val-x2a'' = Some (ToFixed (Fin 0.95) 4)
   \<and> content (snd (handleCalculation (Some toyOracle) Steam (clearForm ''Water'') freshPage))
       ''val-x1'' = Some (Label Superheated)"
proof -
  note steam = C8_phase_and_quality [where tab = Steam and ph = "Fin 5" and q = "Fin (- 1)"
      and x = "Fin (- 1)" and n = 4 and cp = toyOracle and f = "clearForm ''Water''"
      and qs = "toyQueries (Fin 2545000)" and r = toyResults and d = freshPage]
  have n: "formatPhase Steam (Fin 3) (Fin 0.95) = ToFixed (Fin 0.95) 4"
    by (simp add: formatPhase_def js_gt_def)
  have g: "Steam \<noteq> Gas"
    using C8_phase_and_quality [where tab = Steam and ph = "Fin 3" and q = "Fin 0.95"
      and x = "Fin 0.95" and n = 4, THEN conjunct1] n
    by simp
  have "\<exists>l. formatPhase Steam (Fin 5) (Fin (- 1)) = Label l"
    using steam [where a = 0, THEN conjunct2, THEN conjunct1] by simp
  then have s: "formatPhase Steam (Fin 5) (Fin (- 1)) = Label Superheated"
    by (simp add: formatPhase_def)
  have l: "formatPhase Steam (Fin 3) (Fin 0) = Label SaturatedLiquid"
    using steam [where a = 0, THEN conjunct2, THEN conjunct2, THEN conjunct1] by simp
  have v: "formatPhase Steam (Fin 3) (Fin 1) = Label SaturatedVapour"
    using steam [where a = 1, THEN conjunct2, THEN conjunct2, THEN conjunct2, THEN conjunct1]
    by simp
  have c: "content (snd (handleCalculation (Some toyOracle) Steam (clearForm ''Water'')
                           freshPage)) ''val-x2a'' = Some (ToFixed (Fin 0.95) 4)
         \<and> content (snd (handleCalculation (Some toyOracle) Steam (clearForm ''Water'')
                           freshPage)) ''val-x1'' = Some (Label Superheated)"
    using toy_run n s
      steam [where a = 0, THEN conjunct2, THEN conjunct2, THEN conjunct2, THEN conjunct2,
        THEN conjunct2]
    by (simp add: toyResults_def)
  from n g s l v c toy_run show ?thesis
    by simp
qed

text \<open>
  The claim as stated fails on the gas tab: a two-phase point with quality 0, or with
  quality 1, is shown as \<^verbatim>\<open>N/A\<close>, not as a saturated state.
\<close>

theorem C8_counterexample:
  "formatPhase Gas (Fin 3) (Fin 0) = Label NotApplicable
   \<and> Label NotApplicable \<noteq> Label SaturatedLiquid
   \<and> formatPhase Gas (Fin 3) (Fin 1) = Label NotApplicable
   \<and> Label NotApplicable \<noteq> Label SaturatedVapour"
  by (simp add: formatPhase_def)

text \<open>
  The earlier revision labels from the quality alone: a quality of one part in \<open>10^12\<close>
  is shown as a number, and there is no label for the saturated states.
\<close>

lemma formatQuality_near_zero:
  "formatQuality (Fin (1 / 10 ^ 12)) = ToFixed (Fin (1 / 10 ^ 12)) 4"
  by (simp add: formatQuality_def js_gt_def)

lemma formatQuality_labels:
  "formatQuality x = Label l \<Longrightarrow> l \<in> {Subcooled, Superheated, Dashes}"
  by (auto simp: formatQuality_def split: if_splits)

subsection \<open>C9: all or nothing\<close>

text \<open>
  Claim C9. When the calculation fails, with any error (a rejected input, the pressure
  check, or an error thrown by a call to the property library), the page after the click
  is the page before it with the error message in the status bar: no summary field and no
  cell is written. An error thrown by any call that was made is the error reported, so
  none is swallowed. And whenever a field or a cell has changed, the property library was
  loaded and the calculation ran to the end, and the page shows its results.
\<close>

theorem C9_all_or_nothing:
  "(snd (calculate cp tab f) = Inl e \<longrightarrow>
      snd (handleCalculation (Some cp) tab f d)
        = d \<lparr> statusBar_textContent := CalculationError e,
              statusBar_backgroundColor := ''#fff1f0'',
              statusBar_color := ''#cf1322'' \<rparr>
    \<and> content (snd (handleCalculation (Some cp) tab f d)) = content d)
 \<and> (q \<in> set (fst (calculate cp tab f)) \<and> cp q = Inl msg \<longrightarrow>
      snd (calculate cp tab f) = Inl (OracleFailure msg))
 \<and> (content (snd (handleCalculation CP tab f d)) \<noteq> content d \<longrightarrow>
      (\<exists>cp' qs r. CP = Some cp' \<and> calculate cp' tab f = (qs, Inr r)
         \<and> snd (handleCalculation CP tab f d) = showResults tab r d))"
proof (intro conjI impI)
  assume e: "snd (calculate cp tab f) = Inl e"
  then have "calculate cp tab f = (fst (calculate cp tab f), Inl e)"
    by (cases "calculate cp tab f") simp
  from handleCalculation_fail [OF this]
  show "snd (handleCalculation (Some cp) tab f d)
        = d \<lparr> statusBar_textContent := CalculationError e,
              statusBar_backgroundColor := ''#fff1f0'',
              statusBar_color := ''#cf1322'' \<rparr>"
    by simp
  from e show "content (snd (handleCalculation (Some cp) tab f d)) = content d"
    by (rule handleCalculation_fail_content)
next
  assume "q \<in> set (fst (calculate cp tab f)) \<and> cp q = Inl msg"
  with calculate_reports [of cp tab f]
  show "snd (calculate cp tab f) = Inl (OracleFailure msg)"
    by (auto simp: reports_oracle_def)
next
  assume changed: "content (snd (handleCalculation CP tab f d)) \<noteq> content d"
  show "\<exists>cp' qs r. CP = Some cp' \<and> calculate cp' tab f = (qs, Inr r)
         \<and> snd (handleCalculation CP tab f d) = showResults tab r d"
  proof (cases CP)
    case None
    with changed show ?thesis by (simp add: handleCalculation_def)
  next
    case (Some cp')
    show ?thesis
    proof (cases "snd (calculate cp' tab f)")
      case (Inl e')
      with changed Some show ?thesis
        by (simp add: handleCalculation_fail_content)
    next
      case (Inr r)
      then have "calculate cp' tab f = (fst (calculate cp' tab f), Inr r)"
        by (cases "calculate cp' tab f") simp
      with Some show ?thesis
        by (auto simp: handleCalculation_success)
    qed
  qed
qed

text \<open>
  Three runs of the default form for water. With a library that throws, the first call
  is the enthalpy at the inlet, its error is the error of the calculation and the page
  keeps its cells. With an efficiency of 0 the page keeps its cells. With the working
  library the power field of a fresh page changes, and the page shows the results.
\<close>

theorem C9_witness:
  "(''H'', ''P'', Fin 2000000, ''T'', Fin 423.15, ''Water'')
     \<in> set (fst (calculate brokenOracle Steam (clearForm ''Water'')))
   \<and> brokenOracle (''H'', ''P'', Fin 2000000, ''T'', Fin 423.15, ''Water'')
       = Inl ''inputs out of range''
   \<and> snd (calculate brokenOracle Steam (clearForm ''Water''))
       = Inl (OracleFailure ''inputs out of range'')
   \<and> snd (handleCalculation (Some brokenOracle) Steam (clearForm ''Water'') freshPage)
       = freshPage
           \<lparr> statusBar_textContent := CalculationError (OracleFailure ''inputs out of range''),
             statusBar_backgroundColor := ''#fff1f0'',
             statusBar_color := ''#cf1322'' \<rparr>
   \<and> snd (calculate toyOracle Steam ((clearForm ''Water'') \<lparr> isentropic_efficiency := Fin 0 \<rparr>))
       = Inl EfficiencyOutOfRange
   \<and> content (snd (handleCalculation (Some toyOracle) Steam
                     ((clearForm ''Water'') \<lparr> isentropic_efficiency := Fin 0 \<rparr>) freshPage))
       = content freshPage
   \<and> content (snd (handleCalculation (Some toyOracle) Steam (clearForm ''Water'') freshPage))
       \<noteq> content freshPage
   \<and> snd (handleCalculation (Some toyOracle) Steam (clearForm ''Water'') freshPage)
       = showResults Steam toyResults freshPage"
proof -
  let ?q = "(''H'', ''P'', Fin 2000000, ''T'', Fin 423.15, ''Water'')"
  let ?z = "(clearForm ''Water'') \<lparr> isentropic_efficiency := Fin 0 \<rparr>"
  have run: "calculate brokenOracle Steam (clearForm ''Water'')
               = ([?q], Inl (OracleFailure ''inputs out of range''))"
    by (simp add: calc_defs clearForm_def brokenOracle_def)
  have q: "?q \<in> set (fst (calculate brokenOracle Steam (clearForm ''Water'')))"
    by (simp add: run)
  have b: "brokenOracle ?q = Inl ''inputs out of range''"
    by (simp add: brokenOracle_def)
  have e: "snd (calculate brokenOracle Steam (clearForm ''Water''))
             = Inl (OracleFailure ''inputs out of range'')"
    using C9_all_or_nothing [where cp = brokenOracle and tab = Steam
      and f = "clearForm ''Water''" and q = ?q and msg = "''inputs out of range''",
      THEN conjunct2, THEN conjunct1] q b
    by simp
  have p: "snd (handleCalculation (Some brokenOracle) Steam (clearForm ''Water'') freshPage)
       = freshPage
           \<lparr> statusBar_textContent := CalculationError (OracleFailure ''inputs out of range''),
             statusBar_backgroundColor := ''#fff1f0'',
             statusBar_color := ''#cf1322'' \<rparr>"
    using C9_all_or_nothing [where cp = brokenOracle and tab = Steam
      and f = "clearForm ''Water''" and d = freshPage
      and e = "OracleFailure ''inputs out of range''", THEN conjunct1] e
    by simp
  have z: "snd (calculate toyOracle Steam ?z) = Inl EfficiencyOutOfRange"
    by (simp add: calc_defs clearForm_def)
  have k: "content (snd (handleCalculation (Some toyOracle) Steam ?z freshPage))
             = content freshPage"
    using C9_all_or_nothing [where cp = toyOracle and tab = Steam and f = ?z
      and d = freshPage and e = EfficiencyOutOfRange, THEN conjunct1] z
    by simp
  have ne: "content (snd (handleCalculation (Some toyOracle) Steam (clearForm ''Water'')
                            freshPage)) ''result-power'' \<noteq> content freshPage ''result-power''"
    by (simp add: handleCalculation_success [OF toy_run] content_showResults
        summary_fields_shown freshPage_def)
  have c: "content (snd (handleCalculation (Some toyOracle) Steam (clearForm ''Water'')
                           freshPage)) \<noteq> content freshPage"
  proof
    assume "content (snd (handleCalculation (Some toyOracle) Steam (clearForm ''Water'')
                            freshPage)) = content freshPage"
    then have "content (snd (handleCalculation (Some toyOracle) Steam (clearForm ''Water'')
                               freshPage)) ''result-power'' = content freshPage ''result-power''"
      by (rule arg_cong)
    with ne show False ..
  qed
  have "\<exists>cp' qs r. Some toyOracle = Some cp'
          \<and> calculate cp' Steam (clearForm ''Water'') = (qs, Inr r)
          \<and> snd (handleCalculation (Some toyOracle) Steam (clearForm ''Water'') freshPage)
              = showResults Steam r freshPage"
    using C9_all_or_nothing [where CP = "Some toyOracle" and tab = Steam
      and f = "clearForm ''Water''" and d = freshPage, THEN conjunct2, THEN conjunct2]
    by (rule mp) (rule c)
  then obtain qs r where "calculate toyOracle Steam (clearForm ''Water'') = (qs, Inr r)"
    and s: "snd (handleCalculation (Some toyOracle) Steam (clearForm ''Water'') freshPage)
              = showResults Steam r freshPage"
    by auto
  with toy_run have "r = toyResults"
    by simp
  with s have s': "snd (handleCalculation (Some toyOracle) Steam (clearForm ''Water'')
                          freshPage) = showResults Steam toyResults freshPage"
    by simp
  show ?thesis
    by (intro conjI q b e p z k c s')
qed

subsection \<open>C10: the property library is not loaded\<close>

text \<open>
  Claim C10. As long as the module variable is unset, a click on the button only puts
  the not-loaded message in the status bar: no call to the property library is made and
  no summary field or cell is written.
\<close>

theorem C10_not_ready:
  "handleCalculation None tab f d = ([], d \<lparr> statusBar_textContent := NotLoaded \<rparr>)
   \<and> fst (handleCalculation None tab f d) = []
   \<and> content (snd (handleCalculation None tab f d)) = content d
   \<and> statusBar_textContent (snd (handleCalculation None tab f d)) = NotLoaded"
  by (simp add: handleCalculation_def)

text \<open>The default form for water on a fresh page, before the library is loaded.\<close>

theorem C10_witness:
  "handleCalculation None Steam (clearForm ''Water'') freshPage
     = ([], freshPage \<lparr> statusBar_textContent := NotLoaded \<rparr>)
   \<and> content (snd (handleCalculation None Steam (clearForm ''Water'') freshPage)) = Map.empty"
  using C10_not_ready [of Steam "clearForm ''Water''" freshPage]
  by (simp add: freshPage_def)


end
